theory Spec2Isabelle
  imports Main
begin

section \<open>Python values, exceptions and effects\<close>

text \<open>
  The tenant manager (\<^verbatim>\<open>tenant_manager.py\<close>) and the line-of-business routes
  (\<^verbatim>\<open>line_of_business.py\<close>) are Python. A Python \<^verbatim>\<open>str\<close> is represented by the bytes
  of its UTF-8 encoding and a \<^verbatim>\<open>bytes\<close> object by its bytes, both as a \<open>string\<close>; the
  run-time type of a value stored in an attribute or a dictionary is the constructor of
  \<open>pyval\<close>. A \<^verbatim>\<open>datetime\<close> is a number of microseconds (the range limits of
  \<^verbatim>\<open>datetime\<close> are not modelled).
\<close>

type_synonym py_str = string
type_synonym py_bytes = string

datatype exc =
    BaseError string
  | StorageError string
  | StorageNotFoundError string
  | BaseModelError string
  | AttributeError string
  | UnboundLocalError string
  | ValueError string
  | UnicodeDecodeError string
  | OtherException string

text \<open>
  The exception classes of the agent framework that the source names in its
  \<^verbatim>\<open>except\<close> clauses: \<^verbatim>\<open>StorageError\<close> and \<^verbatim>\<open>BaseModelError\<close> derive from
  \<^verbatim>\<open>BaseError\<close>, \<^verbatim>\<open>StorageNotFoundError\<close> from \<^verbatim>\<open>StorageError\<close>.
\<close>

fun isinstance_StorageError :: "exc \<Rightarrow> bool" where
  "isinstance_StorageError (StorageError _) = True"
| "isinstance_StorageError (StorageNotFoundError _) = True"
| "isinstance_StorageError _ = False"

fun isinstance_BaseModelError :: "exc \<Rightarrow> bool" where
  "isinstance_BaseModelError (BaseModelError _) = True"
| "isinstance_BaseModelError _ = False"

fun isinstance_BaseError :: "exc \<Rightarrow> bool" where
  "isinstance_BaseError (BaseError _) = True"
| "isinstance_BaseError e = (isinstance_StorageError e \<or> isinstance_BaseModelError e)"

datatype pyval =
    PNone
  | PStr py_str
  | PBytes py_bytes
  | PBool bool
  | PInt int
  | PDateTime int
  | PList "pyval list"
  | PDict "(py_str \<times> pyval) list"
  | PExc exc

text \<open>
  \<^verbatim>\<open>x.encode("utf-8")\<close>: only a \<^verbatim>\<open>str\<close> has the method; on \<^verbatim>\<open>bytes\<close> (and on every
  other value here) the attribute lookup raises \<^verbatim>\<open>AttributeError\<close>.
\<close>

fun encode_utf8 :: "pyval \<Rightarrow> exc + py_bytes" where
  "encode_utf8 (PStr s) = Inr s"
| "encode_utf8 _ = Inl (AttributeError ''encode'')"

text \<open>
  \<^verbatim>\<open>b.decode("utf-8")\<close> is strict: it raises \<^verbatim>\<open>UnicodeDecodeError\<close> unless the bytes
  are well-formed UTF-8 (no stray continuation byte, no overlong form, no surrogate,
  nothing above U+10FFFF).
\<close>

definition byte_in :: "char \<Rightarrow> nat \<Rightarrow> nat \<Rightarrow> bool" where
  "byte_in c lo hi = (lo \<le> of_char c \<and> of_char c \<le> hi)"

fun utf8_valid :: "py_bytes \<Rightarrow> bool" where
  "utf8_valid [] = True"
| "utf8_valid (c # cs) =
     (if byte_in c 0x00 0x7F then utf8_valid cs
      else if byte_in c 0xC2 0xDF then
        (case cs of c1 # r \<Rightarrow> byte_in c1 0x80 0xBF \<and> utf8_valid r | _ \<Rightarrow> False)
      else if byte_in c 0xE0 0xEF then
        (case cs of c1 # c2 # r \<Rightarrow>
           byte_in c1 (if byte_in c 0xE0 0xE0 then 0xA0 else 0x80)
                      (if byte_in c 0xED 0xED then 0x9F else 0xBF)
           \<and> byte_in c2 0x80 0xBF \<and> utf8_valid r
         | _ \<Rightarrow> False)
      else if byte_in c 0xF0 0xF4 then
        (case cs of c1 # c2 # c3 # r \<Rightarrow>
           byte_in c1 (if byte_in c 0xF0 0xF0 then 0x90 else 0x80)
                      (if byte_in c 0xF4 0xF4 then 0x8F else 0xBF)
           \<and> byte_in c2 0x80 0xBF \<and> byte_in c3 0x80 0xBF \<and> utf8_valid r
         | _ \<Rightarrow> False)
      else False)"

definition decode_utf8 :: "py_bytes \<Rightarrow> exc + py_str" where
  "decode_utf8 b = (if utf8_valid b then Inr b else Inl (UnicodeDecodeError ''utf-8''))"

subsection \<open>The logger, standard output and the record store\<close>

datatype level = DEBUG | INFO | ERROR

text \<open>A logging call: its level, the message template and the values formatted into it.\<close>

datatype log_entry = Log level string "pyval list"

record wallet_record =
  wallet_id :: py_str
  wallet_name :: py_str
  wallet_key :: py_str

record tenant_record =
  tenant_id :: "py_str option"
  tenant_name :: py_str
  tenant_wallet_id :: py_str

record reservation_record =
  reservation_token_salt :: pyval
  reservation_token_hash :: pyval
  reservation_token_expiry :: pyval

text \<open>
  What a call can change: the wallet and tenant records in the agent's storage, the
  calls received by the multitenancy service, the log, what was printed, and how many
  values were drawn from the random sources and the clock. The storage is given by what \<^verbatim>\<open>retrieve_by_id\<close> answers for an id: the
  record, or the error it raises (\<^verbatim>\<open>StorageNotFoundError\<close> for an absent id,
  \<^verbatim>\<open>BaseModelError\<close> for a malformed record).
\<close>

text \<open>A call made to the multitenancy service, with its arguments.\<close>

datatype service_call =
    CreateWallet "py_str \<rightharpoonup> pyval" py_str
  | CreateAuthToken wallet_record py_str

record world =
  wallet_records :: "py_str \<Rightarrow> exc + wallet_record"
  tenant_records :: "py_str \<Rightarrow> exc + tenant_record"
  service_calls :: "service_call list"
  logged :: "log_entry list"
  printed :: "string list"
  draws :: nat

text \<open>
  A method runs in a world and returns either the exception it raised or its value,
  with the world it left behind.
\<close>

type_synonym 'a prog = "world \<Rightarrow> (exc + 'a) \<times> world"

definition return :: "'a \<Rightarrow> 'a prog" where
  "return x = (\<lambda>w. (Inr x, w))"

definition raise :: "exc \<Rightarrow> 'a prog" where
  "raise e = (\<lambda>w. (Inl e, w))"

definition bind :: "'a prog \<Rightarrow> ('a \<Rightarrow> 'b prog) \<Rightarrow> 'b prog" where
  "bind m f = (\<lambda>w. case m w of (Inl e, w') \<Rightarrow> (Inl e, w') | (Inr x, w') \<Rightarrow> f x w')"

text \<open>\<^verbatim>\<open>try: m  except C as err: h(err)\<close>, with \<open>C\<close> given as the test \<open>caught\<close>.\<close>

definition try_except :: "'a prog \<Rightarrow> (exc \<Rightarrow> bool) \<Rightarrow> (exc \<Rightarrow> 'a prog) \<Rightarrow> 'a prog" where
  "try_except m caught h =
     (\<lambda>w. case m w of
        (Inl e, w') \<Rightarrow> if caught e then h e w' else (Inl e, w')
      | (Inr x, w') \<Rightarrow> (Inr x, w'))"

text \<open>A call that can raise but changes nothing (an expression evaluated in place).\<close>

definition lift :: "exc + 'a \<Rightarrow> 'a prog" where
  "lift r = (\<lambda>w. (r, w))"

definition logger :: "level \<Rightarrow> string \<Rightarrow> pyval list \<Rightarrow> unit prog" where
  "logger lv msg args = (\<lambda>w. (Inr (), w\<lparr>logged := logged w @ [Log lv msg args]\<rparr>))"

definition print :: "string \<Rightarrow> unit prog" where
  "print line = (\<lambda>w. (Inr (), w\<lparr>printed := printed w @ [line]\<rparr>))"

section \<open>The password-hashing library\<close>

text \<open>
  \<^verbatim>\<open>bcrypt\<close> is an external library: \<^verbatim>\<open>hashpw(password, salt)\<close> returns the salted hash
  or raises on a salt it cannot read, \<^verbatim>\<open>checkpw(password, hashed)\<close> tells whether the
  password matches the hash or raises likewise. Both are parameters of the model.
\<close>

record bcrypt =
  bcrypt_hashpw :: "py_bytes \<Rightarrow> py_bytes \<Rightarrow> exc + py_bytes"
  bcrypt_checkpw :: "py_bytes \<Rightarrow> py_bytes \<Rightarrow> exc + bool"

text \<open>
  The library's contract for verification: a hash embeds the salt it was made with, and
  \<^verbatim>\<open>checkpw(q, h)\<close> hashes \<open>q\<close> with that salt and compares the outcome with \<open>h\<close>.
\<close>

definition bcrypt_contract :: "bcrypt \<Rightarrow> bool" where
  "bcrypt_contract lib \<longleftrightarrow>
     (\<forall>p s h q. bcrypt_hashpw lib p s = Inr h \<longrightarrow>
        bcrypt_checkpw lib q h =
          (case bcrypt_hashpw lib q s of Inl e \<Rightarrow> Inl e | Inr h' \<Rightarrow> Inr (h' = h)))"

section \<open>The tenant manager\<close>

text \<open>
  What a \<^verbatim>\<open>TenantManager\<close> holds and reaches: its configuration, the profile's
  \<^verbatim>\<open>wallet.type\<close> setting, the injected multitenancy service, the storage's verdict on
  saving a tenant record, and the sources of UUIDs, salts and time (the \<open>n\<close>-th value
  drawn in a run).
\<close>

record config =
  innkeeper_tenant_id :: py_str
  innkeeper_wallet_name :: py_str
  innkeeper_wallet_key :: py_str
  print_key :: bool
  print_token :: bool
  expiry_minutes :: int

record tenant_manager =
  config :: config
  settings_wallet_type :: pyval
  mt_create_wallet :: "(py_str \<rightharpoonup> pyval) \<Rightarrow> py_str \<Rightarrow> world \<Rightarrow> exc + wallet_record"
  mt_create_auth_token :: "wallet_record \<Rightarrow> py_str \<Rightarrow> world \<Rightarrow> exc + py_str"
  save_refused :: "tenant_record \<Rightarrow> world \<Rightarrow> exc option"
  uuid4 :: "nat \<Rightarrow> py_str"
  gensalt :: "nat \<Rightarrow> py_bytes"
  utcnow :: "nat \<Rightarrow> int"

definition draw :: "(nat \<Rightarrow> 'a) \<Rightarrow> 'a prog" where
  "draw src = (\<lambda>w. (Inr (src (draws w)), w\<lparr>draws := Suc (draws w)\<rparr>))"

text \<open>\<^verbatim>\<open>timedelta(minutes=m)\<close>, in microseconds.\<close>

definition timedelta_minutes :: "int \<Rightarrow> int" where
  "timedelta_minutes m = m * 60 * 1000000"

subsection \<open>Wallets and tenants\<close>

text \<open>
  The calls into the collaborators. The multitenancy service decides whether a wallet
  is created and which record it returns; a created wallet is then in the storage under
  its \<^verbatim>\<open>wallet_id\<close>. Issuing a token leaves the records as they are. Every call to
  the service is noted in \<open>service_calls\<close>.
\<close>

definition MODE_MANAGED :: py_str where
  "MODE_MANAGED = ''managed''"

definition multitenant_create_wallet ::
  "tenant_manager \<Rightarrow> (py_str \<rightharpoonup> pyval) \<Rightarrow> py_str \<Rightarrow> wallet_record prog" where
  "multitenant_create_wallet self settings key_management_mode =
     (\<lambda>w.
        let w' = w\<lparr>service_calls :=
                     service_calls w @ [CreateWallet settings key_management_mode]\<rparr>
        in case mt_create_wallet self settings key_management_mode w of
             Inl e \<Rightarrow> (Inl e, w')
           | Inr r \<Rightarrow>
               (Inr r, w'\<lparr>wallet_records := (wallet_records w)(wallet_id r := Inr r)\<rparr>))"

definition multitenant_create_auth_token ::
  "tenant_manager \<Rightarrow> wallet_record \<Rightarrow> py_str \<Rightarrow> py_str prog" where
  "multitenant_create_auth_token self wallet_record key =
     (\<lambda>w. (mt_create_auth_token self wallet_record key w,
           w\<lparr>service_calls := service_calls w @ [CreateAuthToken wallet_record key]\<rparr>))"

definition WalletRecord_retrieve_by_id :: "py_str \<Rightarrow> wallet_record prog" where
  "WalletRecord_retrieve_by_id record_id = (\<lambda>w. (wallet_records w record_id, w))"

definition TenantRecord_retrieve_by_id :: "py_str \<Rightarrow> tenant_record prog" where
  "TenantRecord_retrieve_by_id record_id = (\<lambda>w. (tenant_records w record_id, w))"

text \<open>\<^verbatim>\<open>if not x: x = str(uuid.uuid4())\<close>: \<^verbatim>\<open>None\<close> and the empty string are falsy.\<close>

definition or_uuid4 :: "tenant_manager \<Rightarrow> py_str option \<Rightarrow> py_str prog" where
  "or_uuid4 self given =
     (case given of
        None \<Rightarrow> draw (uuid4 self)
      | Some s \<Rightarrow> if s = [] then draw (uuid4 self) else return s)"

text \<open>
  \<^verbatim>\<open>tenant.save(session, reason="New tenant")\<close>: the record's id is tested with
  \<^verbatim>\<open>if not self._id\<close>, so a record without an id, or with the empty string as id, gets
  a fresh UUID; the storage may refuse the record; otherwise it is stored under its id.
\<close>

definition TenantRecord_save :: "tenant_manager \<Rightarrow> tenant_record \<Rightarrow> tenant_record prog" where
  "TenantRecord_save self tenant =
     bind (or_uuid4 self (tenant_id tenant)) (\<lambda>i.
     (\<lambda>w. case save_refused self tenant w of
        Some e \<Rightarrow> (Inl e, w)
      | None \<Rightarrow>
          (let saved = tenant\<lparr>tenant_id := Some i\<rparr>
           in (Inr saved, w\<lparr>tenant_records := (tenant_records w)(i := Inr saved)\<rparr>))))"

text \<open>The settings dictionary that \<^verbatim>\<open>create_wallet\<close> builds (lines 60 to 70).\<close>

definition wallet_settings ::
  "tenant_manager \<Rightarrow> py_str \<Rightarrow> py_str \<Rightarrow> (py_str \<rightharpoonup> pyval) \<Rightarrow> (py_str \<rightharpoonup> pyval)" where
  "wallet_settings self wallet_name' wallet_key' extra_settings =
     (let wallet_webhook_urls = PList [];
          wallet_dispatch_type = PStr ''base'';
          settings = [''wallet.type'' \<mapsto> settings_wallet_type self,
                      ''wallet.name'' \<mapsto> PStr wallet_name',
                      ''wallet.key'' \<mapsto> PStr wallet_key',
                      ''wallet.webhook_urls'' \<mapsto> wallet_webhook_urls,
                      ''wallet.dispatch_type'' \<mapsto> wallet_dispatch_type];
          settings = settings ++ extra_settings;
          label = wallet_name'
      in settings(''default_label'' \<mapsto> PStr label))"

definition get_token :: "tenant_manager \<Rightarrow> wallet_record \<Rightarrow> py_str prog" where
  "get_token self wallet_record =
     try_except
       (multitenant_create_auth_token self wallet_record (wallet_key wallet_record))
       isinstance_BaseError
       (\<lambda>err.
          bind (logger ERROR ''Error getting token for wallet ({wallet_record.wallet_name}).''
                  [PStr (wallet_name wallet_record), PExc err]) (\<lambda>_.
          raise err))"

text \<open>
  In \<^verbatim>\<open>get_token_by_wallet_id\<close> the local \<^verbatim>\<open>token\<close> is bound only when the body of
  the \<^verbatim>\<open>try\<close> ran to its end: the variable is \<open>Some\<close> token then and \<open>None\<close> (unbound)
  after the handler, and reading an unbound local raises \<^verbatim>\<open>UnboundLocalError\<close>.
\<close>

definition get_token_by_wallet_id :: "tenant_manager \<Rightarrow> py_str \<Rightarrow> py_str prog" where
  "get_token_by_wallet_id self wallet_id' =
     bind (try_except
             (bind (WalletRecord_retrieve_by_id wallet_id') (\<lambda>wallet_record.
              bind (get_token self wallet_record) (\<lambda>token.
              return (Some token))))
             (\<lambda>e. isinstance_StorageError e \<or> isinstance_BaseModelError e)
             (\<lambda>_.
                bind (logger INFO ''Wallet not found with ID {wallet_id}'' [PStr wallet_id']) (\<lambda>_.
                return None)))
       (\<lambda>token.
     case token of
       None \<Rightarrow> raise (UnboundLocalError ''token'')
     | Some t \<Rightarrow> return t)"

definition create_tenant ::
  "tenant_manager \<Rightarrow> py_str \<Rightarrow> py_str option \<Rightarrow> tenant_record prog" where
  "create_tenant self wallet_id' tenant_id' =
     try_except
       (bind (WalletRecord_retrieve_by_id wallet_id') (\<lambda>wallet_record.
        let tenant = \<lparr>tenant_id = tenant_id',
                      tenant_name = wallet_name wallet_record,
                      tenant_wallet_id = wallet_id wallet_record\<rparr>
        in TenantRecord_save self tenant))
       (\<lambda>_. True)
       (\<lambda>err.
          bind (logger ERROR ''{err}'' [PExc err]) (\<lambda>_.
          raise err))"

definition create_wallet ::
  "tenant_manager \<Rightarrow> py_str option \<Rightarrow> py_str option \<Rightarrow> (py_str \<rightharpoonup> pyval) \<Rightarrow> py_str option
     \<Rightarrow> (tenant_record \<times> wallet_record \<times> py_str) prog" where
  "create_wallet self wallet_name' wallet_key' extra_settings tenant_id' =
     bind (or_uuid4 self wallet_name') (\<lambda>wallet_name.
     bind (or_uuid4 self wallet_key') (\<lambda>wallet_key.
     bind (try_except
             (let key_management_mode = MODE_MANAGED;
                  settings = wallet_settings self wallet_name wallet_key extra_settings
              in bind (multitenant_create_wallet self settings key_management_mode)
                   (\<lambda>wallet_record.
                 bind (get_token self wallet_record) (\<lambda>token.
                 return (wallet_record, token))))
             isinstance_BaseError
             (\<lambda>err.
                bind (logger ERROR ''Error creating wallet ({wallet_name}).''
                        [PStr wallet_name, PExc err]) (\<lambda>_.
                raise err)))
       (\<lambda>(wallet_record, token).
     bind (create_tenant self (wallet_id wallet_record) tenant_id') (\<lambda>tenant.
     return (tenant, wallet_record, token)))))"

text \<open>How an f-string shows an optional string.\<close>

definition format_opt :: "py_str option \<Rightarrow> py_str" where
  "format_opt x = (case x of None \<Rightarrow> ''None'' | Some s \<Rightarrow> s)"

text \<open>
  \<^verbatim>\<open>create_innkeeper\<close>, lines 133 to 143: does the innkeeper already exist? Both
  lookups stand in one \<^verbatim>\<open>try\<close>, so after a failed wallet lookup \<^verbatim>\<open>tenant_record\<close>
  keeps the tenant found and \<^verbatim>\<open>wallet_record\<close> is still \<^verbatim>\<open>None\<close>.
\<close>

definition find_innkeeper ::
  "tenant_manager \<Rightarrow> (tenant_record option \<times> wallet_record option) prog" where
  "find_innkeeper self =
     (let tenant_id' = innkeeper_tenant_id (config self);
          not_found = (\<lambda>e. isinstance_StorageError e \<or> isinstance_BaseModelError e);
          log_not_found = logger INFO ''Tenant not found with ID {tenant_id}'' [PStr tenant_id']
      in
      try_except
        (bind (TenantRecord_retrieve_by_id tenant_id') (\<lambda>tenant_record.
         try_except
           (bind (WalletRecord_retrieve_by_id (tenant_wallet_id tenant_record))
              (\<lambda>wallet_record.
            return (Some tenant_record, Some wallet_record)))
           not_found
           (\<lambda>_. bind log_not_found (\<lambda>_. return (Some tenant_record, None)))))
        not_found
        (\<lambda>_. bind log_not_found (\<lambda>_. return (None, None))))"

text \<open>\<^verbatim>\<open>create_innkeeper\<close>, lines 155 to 163: what is printed.\<close>

definition print_innkeeper ::
  "tenant_manager \<Rightarrow> tenant_record \<Rightarrow> wallet_record \<Rightarrow> py_str \<Rightarrow> unit prog" where
  "print_innkeeper self tenant_record wallet_record token =
     bind (print (CHR 0x0A # ''tenant.tenant_name = '' @ tenant_name tenant_record)) (\<lambda>_.
     bind (print (''tenant.tenant_id = '' @ format_opt (tenant_id tenant_record))) (\<lambda>_.
     bind (print (''tenant.wallet_id = '' @ tenant_wallet_id tenant_record)) (\<lambda>_.
     bind (print (''wallet.wallet_name = '' @ wallet_name wallet_record)) (\<lambda>_.
     bind (print (''wallet.wallet_id = '' @ wallet_id wallet_record)) (\<lambda>_.
     let key = (if print_key (config self) then wallet_key wallet_record else ''********'') in
     bind (print (''wallet.wallet_key = '' @ key @ [CHR 0x0A])) (\<lambda>_.
     if print_token (config self)
     then print (''Bearer '' @ token @ [CHR 0x0A])
     else return ()))))))"

text \<open>The five lines that \<^verbatim>\<open>print_innkeeper\<close> starts with: the names and the ids.\<close>

definition id_lines :: "tenant_record \<Rightarrow> wallet_record \<Rightarrow> string list" where
  "id_lines t wr =
     [CHR 0x0A # ''tenant.tenant_name = '' @ tenant_name t,
      ''tenant.tenant_id = '' @ format_opt (tenant_id t),
      ''tenant.wallet_id = '' @ tenant_wallet_id t,
      ''wallet.wallet_name = '' @ wallet_name wr,
      ''wallet.wallet_id = '' @ wallet_id wr]"

text \<open>
  \<^verbatim>\<open>create_innkeeper\<close>: a record object is truthy, so the test
  \<^verbatim>\<open>tenant_record and wallet_record\<close> asks whether both were found.
\<close>

definition create_innkeeper :: "tenant_manager \<Rightarrow> unit prog" where
  "create_innkeeper self =
     (let tenant_id' = innkeeper_tenant_id (config self);
          wallet_name' = innkeeper_wallet_name (config self);
          wallet_key' = innkeeper_wallet_key (config self)
      in
      bind (find_innkeeper self) (\<lambda>found.
      bind (case found of
              (Some tenant_record, Some wallet_record) \<Rightarrow>
                bind (logger INFO ''{wallet_name} wallet exists.'' [PStr wallet_name']) (\<lambda>_.
                bind (get_token self wallet_record) (\<lambda>token.
                return (tenant_record, wallet_record, token)))
            | _ \<Rightarrow>
                bind (logger INFO ''creating {wallet_name} wallet...'' [PStr wallet_name']) (\<lambda>_.
                bind (create_wallet self (Some wallet_name') (Some wallet_key')
                        [''wallet.innkeeper'' \<mapsto> PBool True] (Some tenant_id')) (\<lambda>created.
                bind (logger INFO ''...created {wallet_name} tenant and wallet.''
                        [PStr wallet_name']) (\<lambda>_.
                return created))))
        (\<lambda>(tenant_record, wallet_record, token).
      print_innkeeper self tenant_record wallet_record token)))"

subsection \<open>Reading the calls received by the service\<close>

text \<open>The settings a \<^verbatim>\<open>create_wallet\<close> call carried.\<close>

fun call_settings :: "service_call \<Rightarrow> (py_str \<rightharpoonup> pyval)" where
  "call_settings (CreateWallet settings mode) = settings"
| "call_settings (CreateAuthToken wallet_record key) = Map.empty"

text \<open>
  A method only ever adds to the calls the service has received (\<open>appends_calls\<close>); it
  may be known to start with a given call (\<open>first_call\<close>).
\<close>

definition appends_calls :: "'a prog \<Rightarrow> bool" where
  "appends_calls m \<longleftrightarrow> (\<forall>w. \<exists>rest. service_calls (snd (m w)) = service_calls w @ rest)"

definition first_call :: "'a prog \<Rightarrow> service_call \<Rightarrow> bool" where
  "first_call m c \<longleftrightarrow>
     (\<forall>w. \<exists>rest. service_calls (snd (m w)) = service_calls w @ c # rest)"

subsection \<open>Reservation passwords\<close>

definition generate_reservation_token_data ::
  "bcrypt \<Rightarrow> tenant_manager \<Rightarrow> (pyval \<times> pyval \<times> pyval \<times> pyval) prog" where
  "generate_reservation_token_data lib self =
     bind (draw (uuid4 self)) (\<lambda>pwd.
     bind (logger INFO ''_pwd = {_pwd}'' [PStr pwd]) (\<lambda>_.
     bind (draw (gensalt self)) (\<lambda>salt.
     bind (logger INFO ''_salt = {_salt}'' [PBytes salt]) (\<lambda>_.
     bind (lift (encode_utf8 (PStr pwd))) (\<lambda>pwd_bytes.
     bind (lift (bcrypt_hashpw lib pwd_bytes salt)) (\<lambda>hash.
     bind (logger INFO ''_hash = {_hash}'' [PBytes hash]) (\<lambda>_.
     let minutes = expiry_minutes (config self) in
     bind (draw (utcnow self)) (\<lambda>now.
     let expiry = now + timedelta_minutes minutes in
     bind (logger INFO ''_expiry = {_expiry}'' [PDateTime expiry]) (\<lambda>_.
     return (PStr pwd, PBytes salt, PBytes hash, PDateTime expiry))))))))))"

definition check_reservation_password ::
  "bcrypt \<Rightarrow> pyval \<Rightarrow> reservation_record \<Rightarrow> (py_str option) prog" where
  "check_reservation_password lib reservation_pwd reservation =
     bind (lift (encode_utf8 reservation_pwd)) (\<lambda>pwd1.
     bind (lift (encode_utf8 (reservation_token_salt reservation))) (\<lambda>salt.
     bind (lift (bcrypt_hashpw lib pwd1 salt)) (\<lambda>reservation_token.
     bind (lift (encode_utf8 reservation_pwd)) (\<lambda>pwd2.
     bind (lift (bcrypt_checkpw lib pwd2 reservation_token)) (\<lambda>checkpw.
     bind (logger DEBUG ''bcrypt.checkpw(reservation_pwd, reservation_token) = {checkpw}''
             [PBool checkpw]) (\<lambda>_.
     bind (lift (encode_utf8 reservation_pwd)) (\<lambda>pwd3.
     bind (lift (encode_utf8 (reservation_token_hash reservation))) (\<lambda>saved_hash.
     bind (lift (bcrypt_checkpw lib pwd3 saved_hash)) (\<lambda>checkpw2.
     bind (logger DEBUG ''bcrypt.checkpw(reservation_pwd, reservation_token_hash) = {checkpw2}''
             [PBool checkpw2]) (\<lambda>_.
     if checkpw \<and> checkpw2
     then bind (lift (decode_utf8 reservation_token)) (\<lambda>s. return (Some s))
     else return None))))))))))"

text \<open>
  The verification as the specification reads it once the self-check is set aside: hash
  the plaintext with the stored salt, compare the plaintext with the persisted hash only,
  and return the recomputed hash as a string on a match.
\<close>

definition check_persisted_hash_only ::
  "bcrypt \<Rightarrow> pyval \<Rightarrow> reservation_record \<Rightarrow> (py_str option) prog" where
  "check_persisted_hash_only lib reservation_pwd reservation =
     bind (lift (encode_utf8 reservation_pwd)) (\<lambda>pwd1.
     bind (lift (encode_utf8 (reservation_token_salt reservation))) (\<lambda>salt.
     bind (lift (bcrypt_hashpw lib pwd1 salt)) (\<lambda>reservation_token.
     bind (lift (encode_utf8 (reservation_token_hash reservation))) (\<lambda>saved_hash.
     bind (lift (bcrypt_checkpw lib pwd1 saved_hash)) (\<lambda>checkpw2.
     if checkpw2
     then bind (lift (decode_utf8 reservation_token)) (\<lambda>s. return (Some s))
     else return None)))))"

section \<open>The line-of-business routes\<close>

text \<open>
  \<^verbatim>\<open>request_degree\<close> reads three rows through the repositories (a missing row raises)
  and hands a proof request to the agent-facing service, whose answer it returns. The
  repositories and the service are parameters; a dictionary literal is a \<open>PDict\<close>.
\<close>

record applicant =
  connection_id :: "py_str option"
  applicant_alias :: pyval

record lob =
  lob_wallet_id :: pyval
  lob_wallet_key :: pyval
  cred_def_id :: pyval

record 'r showcase =
  applicant_get_by_id_in_sandbox :: "py_str \<Rightarrow> py_str \<Rightarrow> exc + applicant"
  lob_get_by_id_with_sandbox :: "py_str \<Rightarrow> py_str \<Rightarrow> exc + lob"
  lob_get_by_name_with_sandbox :: "py_str \<Rightarrow> py_str \<Rightarrow> exc + lob"
  tenant_request_credential_presentation ::
    "pyval \<Rightarrow> pyval \<Rightarrow> py_str \<Rightarrow> pyval \<Rightarrow> pyval \<Rightarrow> exc + 'r"

definition request_degree :: "'r showcase \<Rightarrow> py_str \<Rightarrow> py_str \<Rightarrow> py_str \<Rightarrow> exc + 'r" where
  "request_degree api sandbox_id lob_id applicant_id =
     (case applicant_get_by_id_in_sandbox api sandbox_id applicant_id of
        Inl e \<Rightarrow> Inl e
      | Inr applicant \<Rightarrow>
     (case lob_get_by_id_with_sandbox api sandbox_id lob_id of
        Inl e \<Rightarrow> Inl e
      | Inr acme \<Rightarrow>
     (case lob_get_by_name_with_sandbox api sandbox_id ''Faber'' of
        Inl e \<Rightarrow> Inl e
      | Inr faber \<Rightarrow>
     (let proof_req = PDict [
            (''requested_attributes'', PList [
               PDict [(''name'', PStr ''degree''),
                      (''restrictions'', PList [PDict [(''cred_def_id'', cred_def_id faber)]])],
               PDict [(''name'', PStr ''date''),
                      (''restrictions'', PList [PDict [(''cred_def_id'', cred_def_id faber)]])]]),
            (''requested_predicates'', PList [
               PDict [(''name'', PStr ''age''),
                      (''p_type'', PStr ''>''),
                      (''p_value'', PInt 18),
                      (''restrictions'', PList [PDict [(''cred_def_id'', cred_def_id faber)]])]])]
      in tenant_request_credential_presentation api
           (lob_wallet_id acme) (lob_wallet_key acme)
           (format_opt (connection_id applicant)) (applicant_alias applicant) proof_req))))"

text \<open>Reading a dictionary: \<^verbatim>\<open>d.get(k)\<close>.\<close>

fun dict_get :: "pyval \<Rightarrow> py_str \<Rightarrow> pyval option" where
  "dict_get (PDict kvs) k = map_of kvs k"
| "dict_get _ k = None"

section \<open>Concrete collaborators for examples\<close>

subsection \<open>A small hashing library\<close>

text \<open>
  An instance of the library's interface for concrete runs. Like bcrypt it keeps the
  first 29 bytes of its salt argument (so a hash can serve as the salt again), refuses a
  shorter one, and reads at most 72 bytes of the password; in place of a digest it
  appends that password prefix.
\<close>

definition demo_hashpw :: "py_bytes \<Rightarrow> py_bytes \<Rightarrow> exc + py_bytes" where
  "demo_hashpw password salt =
     (if length salt < 29 then Inl (ValueError ''Invalid salt'')
      else Inr (take 29 salt @ take 72 password))"

definition demo_checkpw :: "py_bytes \<Rightarrow> py_bytes \<Rightarrow> exc + bool" where
  "demo_checkpw password hashed =
     (case demo_hashpw password hashed of Inl e \<Rightarrow> Inl e | Inr h \<Rightarrow> Inr (h = hashed))"

definition demo_bcrypt :: bcrypt where
  "demo_bcrypt = \<lparr>bcrypt_hashpw = demo_hashpw, bcrypt_checkpw = demo_checkpw\<rparr>"

subsection \<open>A tenant manager, its failing variants and an empty storage\<close>

definition demo_config :: config where
  "demo_config = \<lparr>innkeeper_tenant_id = ''innkeeper'',
                   innkeeper_wallet_name = ''traction_innkeeper'',
                   innkeeper_wallet_key = ''change-me'',
                   print_key = False,
                   print_token = True,
                   expiry_minutes = 2880\<rparr>"

text \<open>
  A multitenancy service that names the wallet after \<^verbatim>\<open>wallet.name\<close> and refuses
  settings without a name or a key.
\<close>

definition demo_create_wallet ::
  "(py_str \<rightharpoonup> pyval) \<Rightarrow> py_str \<Rightarrow> world \<Rightarrow> exc + wallet_record" where
  "demo_create_wallet settings mode w =
     (case (settings ''wallet.name'', settings ''wallet.key'') of
        (Some (PStr n), Some (PStr k)) \<Rightarrow>
          Inr \<lparr>wallet_id = ''wallet-of-'' @ n, wallet_name = n, wallet_key = k\<rparr>
      | _ \<Rightarrow> Inl (BaseError ''wallet settings''))"

definition demo_create_auth_token :: "wallet_record \<Rightarrow> py_str \<Rightarrow> world \<Rightarrow> exc + py_str" where
  "demo_create_auth_token wallet_record key w = Inr (''token-for-'' @ wallet_id wallet_record)"

definition demo_manager :: tenant_manager where
  "demo_manager = \<lparr>config = demo_config,
                    settings_wallet_type = PStr ''askar'',
                    mt_create_wallet = demo_create_wallet,
                    mt_create_auth_token = demo_create_auth_token,
                    save_refused = (\<lambda>tenant w. None),
                    uuid4 = (\<lambda>n. ''uuid4-'' @ replicate n (CHR ''i'')),
                    gensalt = (\<lambda>n. ''$2b$12$abcdefghijklmnopqrstuv''),
                    utcnow = (\<lambda>n. 1000000 * int n)\<rparr>"

definition token_refusing_manager :: tenant_manager where
  "token_refusing_manager =
     demo_manager\<lparr>mt_create_auth_token := (\<lambda>wallet_record key w. Inl (BaseError ''no token''))\<rparr>"

definition crashing_manager :: tenant_manager where
  "crashing_manager =
     demo_manager\<lparr>mt_create_wallet := (\<lambda>settings mode w. Inl (OtherException ''crash''))\<rparr>"

definition empty_world :: world where
  "empty_world = \<lparr>wallet_records = (\<lambda>i. Inl (StorageNotFoundError i)),
                   tenant_records = (\<lambda>i. Inl (StorageNotFoundError i)),
                   service_calls = [],
                   logged = [],
                   printed = [],
                   draws = 0\<rparr>"

subsection \<open>Repositories with one applicant and two lines of business\<close>

definition demo_api :: "pyval showcase" where
  "demo_api = \<lparr>
     applicant_get_by_id_in_sandbox = (\<lambda>sandbox_id applicant_id.
       Inr \<lparr>connection_id = Some ''c0ffee00-0000-4000-8000-000000000001'',
            applicant_alias = PStr ''Alice''\<rparr>),
     lob_get_by_id_with_sandbox = (\<lambda>sandbox_id lob_id.
       Inr \<lparr>lob_wallet_id = PStr ''acme-wallet'', lob_wallet_key = PStr ''acme-key'',
            cred_def_id = PNone\<rparr>),
     lob_get_by_name_with_sandbox = (\<lambda>sandbox_id name.
       if name = ''Faber''
       then Inr \<lparr>lob_wallet_id = PStr ''faber-wallet'', lob_wallet_key = PStr ''faber-key'',
                 cred_def_id = PStr ''faber:3:CL:12:degree''\<rparr>
       else Inl (OtherException ''not found'')),
     tenant_request_credential_presentation = (\<lambda>wallet_id' wallet_key' connection alias' proof_req.
       Inr proof_req)\<rparr>"

section \<open>Running the model\<close>

lemmas prog_defs =
  return_def raise_def bind_def try_except_def lift_def logger_def print_def draw_def

lemmas tm_defs =
  create_wallet_def or_uuid4_def wallet_settings_def multitenant_create_wallet_def
  multitenant_create_auth_token_def get_token_def create_tenant_def
  WalletRecord_retrieve_by_id_def TenantRecord_retrieve_by_id_def TenantRecord_save_def
  MODE_MANAGED_def

lemmas innkeeper_defs =
  create_innkeeper_def find_innkeeper_def print_innkeeper_def format_opt_def

lemmas demo_defs =
  demo_manager_def demo_config_def demo_create_wallet_def demo_create_auth_token_def
  empty_world_def token_refusing_manager_def crashing_manager_def

lemma bind_lift_Inr [simp]: "bind (lift (Inr x)) f = f x"
  by (simp add: bind_def lift_def)

lemma bind_lift_Inl [simp]: "bind (lift (Inl e)) f = raise e"
  by (simp add: bind_def lift_def raise_def)

lemma bind_Inr: "m w = (Inr x, w') \<Longrightarrow> bind m f w = f x w'"
  by (simp add: bind_def)

lemma bind_Inl: "m w = (Inl e, w') \<Longrightarrow> bind m f w = (Inl e, w')"
  by (simp add: bind_def)

lemma bind_return [simp]: "bind (return x) f = f x"
  by (simp add: bind_def return_def)

lemma bind_raise [simp]: "bind (raise e) f = raise e"
  by (simp add: bind_def raise_def)

lemma bind_logger [simp]:
  "bind (logger lv msg args) f w = f () (w\<lparr>logged := logged w @ [Log lv msg args]\<rparr>)"
  by (simp add: bind_def logger_def)

lemma bind_draw [simp]:
  "bind (draw src) f w = f (src (draws w)) (w\<lparr>draws := Suc (draws w)\<rparr>)"
  by (simp add: bind_def draw_def)

lemma fst_raise [simp]: "fst (raise e w) = Inl e"
  by (simp add: raise_def)

lemma fst_return [simp]: "fst (return x w) = Inr x"
  by (simp add: return_def)

lemma decode_utf8_Inr: "decode_utf8 b = Inr s \<Longrightarrow> s = b \<and> utf8_valid b"
  by (simp add: decode_utf8_def split: if_splits)

section \<open>Reservation passwords: generation and verification\<close>

lemma demo_bcrypt_contract: "bcrypt_contract demo_bcrypt"
  by (auto simp: bcrypt_contract_def demo_bcrypt_def demo_checkpw_def demo_hashpw_def
           split: if_splits)

lemma checkpw_own_hash:
  assumes "bcrypt_contract lib" and "bcrypt_hashpw lib p s = Inr h"
  shows "bcrypt_checkpw lib p h = Inr True"
  using assms unfolding bcrypt_contract_def by fastforce

text \<open>
  What a successful \<^verbatim>\<open>generate_reservation_token_data\<close> returns: the password is a
  \<^verbatim>\<open>str\<close>, the salt and the hash are \<^verbatim>\<open>bytes\<close>, and the hash is the library's hash
  of the password under the salt.
\<close>

lemma generate_result:
  assumes "fst (generate_reservation_token_data lib self w) = Inr (pwd, salt, hash, expiry)"
  shows "\<exists>p s h. pwd = PStr p \<and> salt = PBytes s \<and> hash = PBytes h
           \<and> bcrypt_hashpw lib p s = Inr h"
  using assms
  by (cases "bcrypt_hashpw lib (uuid4 self (draws w)) (gensalt self (Suc (draws w)))")
     (auto simp: generate_reservation_token_data_def Let_def)

lemma demo_generate:
  "fst (generate_reservation_token_data demo_bcrypt demo_manager empty_world) =
     Inr (PStr ''uuid4-'', PBytes ''$2b$12$abcdefghijklmnopqrstuv'',
          PBytes ''$2b$12$abcdefghijklmnopqrstuvuuid4-'', PDateTime 172802000000)"
  by (simp add: generate_reservation_token_data_def demo_bcrypt_def demo_manager_def
      empty_world_def demo_config_def demo_hashpw_def timedelta_minutes_def)

lemma demo_salt_text:
  "decode_utf8 ''$2b$12$abcdefghijklmnopqrstuv'' = Inr ''$2b$12$abcdefghijklmnopqrstuv''"
  by (simp add: decode_utf8_def byte_in_def)

lemma demo_hash_text:
  "decode_utf8 ''$2b$12$abcdefghijklmnopqrstuvuuid4-'' =
     Inr ''$2b$12$abcdefghijklmnopqrstuvuuid4-''"
  by (simp add: decode_utf8_def byte_in_def)

text \<open>
  C1 (round trip). A record populated with the very values
  \<^verbatim>\<open>generate_reservation_token_data\<close> returned does not verify: the salt and the hash
  come back as \<^verbatim>\<open>bytes\<close>, and \<^verbatim>\<open>check_reservation_password\<close> calls \<^verbatim>\<open>.encode\<close> on
  the record's fields. Here the generated tuple is stored as it is and the generated
  password is checked against it.
\<close>

theorem round_trip_raw_values_counterexample:
  "fst (generate_reservation_token_data demo_bcrypt demo_manager empty_world) =
     Inr (PStr ''uuid4-'', PBytes ''$2b$12$abcdefghijklmnopqrstuv'',
          PBytes ''$2b$12$abcdefghijklmnopqrstuvuuid4-'', PDateTime 172802000000)
   \<and> fst (check_reservation_password demo_bcrypt (PStr ''uuid4-'')
        \<lparr>reservation_token_salt = PBytes ''$2b$12$abcdefghijklmnopqrstuv'',
         reservation_token_hash = PBytes ''$2b$12$abcdefghijklmnopqrstuvuuid4-'',
         reservation_token_expiry = PDateTime 172802000000\<rparr> empty_world)
     = Inl (AttributeError ''encode'')"
  by (simp add: generate_reservation_token_data_def check_reservation_password_def
      demo_bcrypt_def demo_manager_def empty_world_def demo_config_def demo_hashpw_def
      timedelta_minutes_def)

text \<open>
  C1 (round trip), as it holds. When the salt and the hash that
  \<^verbatim>\<open>generate_reservation_token_data\<close> returned are stored in the record as text (their
  UTF-8 decoding), checking the generated password against that record returns the hash
  as a string, not \<^verbatim>\<open>None\<close>, for every hashing library that keeps its contract and in
  every world.
\<close>

theorem round_trip_stored_as_text:
  assumes "bcrypt_contract lib"
    and "fst (generate_reservation_token_data lib self w) =
           Inr (pwd, PBytes salt, PBytes hash, expiry)"
    and "decode_utf8 salt = Inr salt_text"
    and "decode_utf8 hash = Inr hash_text"
  shows "fst (check_reservation_password lib pwd
            \<lparr>reservation_token_salt = PStr salt_text,
             reservation_token_hash = PStr hash_text,
             reservation_token_expiry = expiry\<rparr> w') = Inr (Some hash_text)"
proof -
  from generate_result[OF assms(2)] obtain p where
    p: "pwd = PStr p" and h: "bcrypt_hashpw lib p salt = Inr hash" by auto
  from decode_utf8_Inr[OF assms(3)] have s: "salt_text = salt" by simp
  from decode_utf8_Inr[OF assms(4)] have t: "hash_text = hash" "utf8_valid hash" by simp_all
  from checkpw_own_hash[OF assms(1) h] have own: "bcrypt_checkpw lib p hash = Inr True" .
  show ?thesis
    by (simp add: check_reservation_password_def p s t h own decode_utf8_def)
qed

theorem round_trip_stored_as_text_witness:
  "fst (check_reservation_password demo_bcrypt (PStr ''uuid4-'')
      \<lparr>reservation_token_salt = PStr ''$2b$12$abcdefghijklmnopqrstuv'',
       reservation_token_hash = PStr ''$2b$12$abcdefghijklmnopqrstuvuuid4-'',
       reservation_token_expiry = PDateTime 172802000000\<rparr> empty_world)
   = Inr (Some ''$2b$12$abcdefghijklmnopqrstuvuuid4-'')"
  using round_trip_stored_as_text
          [OF demo_bcrypt_contract demo_generate demo_salt_text demo_hash_text] .

text \<open>
  C2 (another password). Distinct passwords need not be told apart: the verdict is the
  library's, and bcrypt reads only the first 72 bytes of a password. With a library that
  does so, two passwords of 73 bytes that differ in the last byte have the same hash, and
  checking the second against the record made for the first returns the hash.
\<close>

theorem distinct_passwords_counterexample:
  "''aaaaaaaaaaaaaaaaaaaaaaaaaaaaaaaaaaaaaaaaaaaaaaaaaaaaaaaaaaaaaaaaaaaaaaaax'' \<noteq> ''aaaaaaaaaaaaaaaaaaaaaaaaaaaaaaaaaaaaaaaaaaaaaaaaaaaaaaaaaaaaaaaaaaaaaaaay''
   \<and> bcrypt_hashpw demo_bcrypt ''aaaaaaaaaaaaaaaaaaaaaaaaaaaaaaaaaaaaaaaaaaaaaaaaaaaaaaaaaaaaaaaaaaaaaaaax'' ''$2b$12$abcdefghijklmnopqrstuv'' = Inr ''$2b$12$abcdefghijklmnopqrstuvaaaaaaaaaaaaaaaaaaaaaaaaaaaaaaaaaaaaaaaaaaaaaaaaaaaaaaaaaaaaaaaaaaaaaaaa''
   \<and> fst (check_reservation_password demo_bcrypt (PStr ''aaaaaaaaaaaaaaaaaaaaaaaaaaaaaaaaaaaaaaaaaaaaaaaaaaaaaaaaaaaaaaaaaaaaaaaay'')
        \<lparr>reservation_token_salt = PStr ''$2b$12$abcdefghijklmnopqrstuv'',
         reservation_token_hash = PStr ''$2b$12$abcdefghijklmnopqrstuvaaaaaaaaaaaaaaaaaaaaaaaaaaaaaaaaaaaaaaaaaaaaaaaaaaaaaaaaaaaaaaaaaaaaaaaa'',
         reservation_token_expiry = PDateTime 172802000000\<rparr> empty_world)
     = Inr (Some ''$2b$12$abcdefghijklmnopqrstuvaaaaaaaaaaaaaaaaaaaaaaaaaaaaaaaaaaaaaaaaaaaaaaaaaaaaaaaaaaaaaaaaaaaaaaaa'')"
  by (simp add: check_reservation_password_def demo_bcrypt_def demo_hashpw_def demo_checkpw_def
      decode_utf8_def byte_in_def)

text \<open>
  C2 (another password), as it holds. For passwords \<open>P\<close> and \<open>Q\<close> to which the library
  gives different hashes under the record's salt, checking \<open>Q\<close> against the record made
  for \<open>P\<close> returns \<^verbatim>\<open>None\<close>.
\<close>

theorem other_hash_no_match:
  assumes "bcrypt_contract lib"
    and "bcrypt_hashpw lib P salt = Inr h"
    and "bcrypt_hashpw lib Q salt = Inr h'"
    and "h' \<noteq> h"
  shows "fst (check_reservation_password lib (PStr Q)
            \<lparr>reservation_token_salt = PStr salt,
             reservation_token_hash = PStr h,
             reservation_token_expiry = expiry\<rparr> w) = Inr None"
proof -
  from checkpw_own_hash[OF assms(1,3)] have own: "bcrypt_checkpw lib Q h' = Inr True" .
  from assms have other: "bcrypt_checkpw lib Q h = Inr False"
    unfolding bcrypt_contract_def by fastforce
  show ?thesis
    by (simp add: check_reservation_password_def assms(3) own other)
qed

theorem other_hash_no_match_witness:
  "fst (check_reservation_password demo_bcrypt (PStr ''guess'')
      \<lparr>reservation_token_salt = PStr ''$2b$12$abcdefghijklmnopqrstuv'',
       reservation_token_hash = PStr ''$2b$12$abcdefghijklmnopqrstuvsecret'',
       reservation_token_expiry = PDateTime 0\<rparr> empty_world) = Inr None"
proof -
  have P: "bcrypt_hashpw demo_bcrypt ''secret'' ''$2b$12$abcdefghijklmnopqrstuv'' =
             Inr ''$2b$12$abcdefghijklmnopqrstuvsecret''"
    by (simp add: demo_bcrypt_def demo_hashpw_def)
  have Q: "bcrypt_hashpw demo_bcrypt ''guess'' ''$2b$12$abcdefghijklmnopqrstuv'' =
             Inr ''$2b$12$abcdefghijklmnopqrstuvguess''"
    by (simp add: demo_bcrypt_def demo_hashpw_def)
  have ne: "''$2b$12$abcdefghijklmnopqrstuvguess'' \<noteq> ''$2b$12$abcdefghijklmnopqrstuvsecret''"
    by simp
  show ?thesis
    using other_hash_no_match[OF demo_bcrypt_contract P Q ne] .
qed

text \<open>
  C3 (expiry). The verification does not look at the expiry. This record expired at
  172802000000 microseconds, the clock reads a later time, and the right password is
  accepted all the same.
\<close>

theorem expired_reservation_counterexample:
  "reservation_token_expiry
      \<lparr>reservation_token_salt = PStr ''$2b$12$abcdefghijklmnopqrstuv'',
       reservation_token_hash = PStr ''$2b$12$abcdefghijklmnopqrstuvuuid4-'',
       reservation_token_expiry = PDateTime 172802000000\<rparr> = PDateTime 172802000000
   \<and> (172802000000 :: int) < utcnow demo_manager 200000
   \<and> fst (check_reservation_password demo_bcrypt (PStr ''uuid4-'')
        \<lparr>reservation_token_salt = PStr ''$2b$12$abcdefghijklmnopqrstuv'',
         reservation_token_hash = PStr ''$2b$12$abcdefghijklmnopqrstuvuuid4-'',
         reservation_token_expiry = PDateTime 172802000000\<rparr> empty_world)
     = Inr (Some ''$2b$12$abcdefghijklmnopqrstuvuuid4-'')"
  by (simp add: check_reservation_password_def demo_bcrypt_def demo_hashpw_def demo_checkpw_def
      demo_manager_def decode_utf8_def byte_in_def)

text \<open>
  C3 (expiry), as it holds. \<^verbatim>\<open>check_reservation_password\<close> never reads the expiry of
  the reservation: whatever expiry the record carries, the outcome (value or exception,
  and the log) is the same. Refusing an expired reservation is left to the caller.
\<close>

theorem check_ignores_expiry:
  "check_reservation_password lib reservation_pwd
     (reservation\<lparr>reservation_token_expiry := expiry\<rparr>)
   = check_reservation_password lib reservation_pwd reservation"
  by (simp add: check_reservation_password_def)

text \<open>
  C6 (the redundant self-check). Under the library's contract the first comparison, of
  the plaintext with the hash just computed from it, is always true, so
  \<^verbatim>\<open>check_reservation_password\<close> returns (or raises) exactly what the verification
  that compares with the persisted hash only does.
\<close>

theorem self_check_redundant:
  assumes "bcrypt_contract lib"
  shows "fst (check_reservation_password lib reservation_pwd reservation w)
       = fst (check_persisted_hash_only lib reservation_pwd reservation w)"
proof (cases "encode_utf8 reservation_pwd")
  case (Inl e)
  then show ?thesis
    by (simp add: check_reservation_password_def check_persisted_hash_only_def)
next
  case p: (Inr p)
  show ?thesis
  proof (cases "encode_utf8 (reservation_token_salt reservation)")
    case (Inl e)
    with p show ?thesis
      by (simp add: check_reservation_password_def check_persisted_hash_only_def)
  next
    case s: (Inr s)
    show ?thesis
    proof (cases "bcrypt_hashpw lib p s")
      case (Inl e)
      with p s show ?thesis
        by (simp add: check_reservation_password_def check_persisted_hash_only_def)
    next
      case t: (Inr t)
      from checkpw_own_hash[OF assms t] have own: "bcrypt_checkpw lib p t = Inr True" .
      show ?thesis
      proof (cases "encode_utf8 (reservation_token_hash reservation)")
        case (Inl e)
        with p s t own show ?thesis
          by (simp add: check_reservation_password_def check_persisted_hash_only_def)
      next
        case h: (Inr h)
        show ?thesis
        proof (cases "bcrypt_checkpw lib p h")
          case (Inl e)
          with p s t own h show ?thesis
            by (simp add: check_reservation_password_def check_persisted_hash_only_def)
        next
          case (Inr b)
          with p s t own h show ?thesis
            by (cases "decode_utf8 t")
               (simp_all add: check_reservation_password_def check_persisted_hash_only_def)
        qed
      qed
    qed
  qed
qed

theorem self_check_redundant_witness:
  "fst (check_reservation_password demo_bcrypt (PStr ''secret'')
      \<lparr>reservation_token_salt = PStr ''$2b$12$abcdefghijklmnopqrstuv'',
       reservation_token_hash = PStr ''$2b$12$abcdefghijklmnopqrstuvsecret'',
       reservation_token_expiry = PDateTime 0\<rparr> empty_world)
   = fst (check_persisted_hash_only demo_bcrypt (PStr ''secret'')
      \<lparr>reservation_token_salt = PStr ''$2b$12$abcdefghijklmnopqrstuv'',
       reservation_token_hash = PStr ''$2b$12$abcdefghijklmnopqrstuvsecret'',
       reservation_token_expiry = PDateTime 0\<rparr> empty_world)
   \<and> fst (check_persisted_hash_only demo_bcrypt (PStr ''secret'')
      \<lparr>reservation_token_salt = PStr ''$2b$12$abcdefghijklmnopqrstuv'',
       reservation_token_hash = PStr ''$2b$12$abcdefghijklmnopqrstuvsecret'',
       reservation_token_expiry = PDateTime 0\<rparr> empty_world)
     = Inr (Some ''$2b$12$abcdefghijklmnopqrstuvsecret'')"
  using self_check_redundant[OF demo_bcrypt_contract, of "PStr ''secret''"
      "\<lparr>reservation_token_salt = PStr ''$2b$12$abcdefghijklmnopqrstuv'',
        reservation_token_hash = PStr ''$2b$12$abcdefghijklmnopqrstuvsecret'',
        reservation_token_expiry = PDateTime 0\<rparr>" empty_world]
  by (simp add: check_persisted_hash_only_def demo_bcrypt_def demo_hashpw_def demo_checkpw_def
      decode_utf8_def byte_in_def)

text \<open>
  C10 (bytes where strings are expected). \<^verbatim>\<open>generate_reservation_token_data\<close>
  returns the salt and the hash as \<^verbatim>\<open>bytes\<close>; \<^verbatim>\<open>check_reservation_password\<close> calls
  \<^verbatim>\<open>.encode("utf-8")\<close> on the record's salt and hash. For a record populated with the
  values as they were returned, the check raises \<^verbatim>\<open>AttributeError\<close>, whatever password
  it is given: it returns neither the hash nor \<^verbatim>\<open>None\<close>.
\<close>

theorem check_raises_on_generated_bytes:
  assumes "fst (generate_reservation_token_data lib self w) = Inr (pwd, salt, hash, expiry)"
  shows "(\<exists>p s h. pwd = PStr p \<and> salt = PBytes s \<and> hash = PBytes h
            \<and> bcrypt_hashpw lib p s = Inr h)
       \<and> fst (check_reservation_password lib reservation_pwd
            \<lparr>reservation_token_salt = salt,
             reservation_token_hash = hash,
             reservation_token_expiry = expiry\<rparr> w') = Inl (AttributeError ''encode'')"
proof -
  from generate_result[OF assms] obtain p s h where
    r: "pwd = PStr p" "salt = PBytes s" "hash = PBytes h" "bcrypt_hashpw lib p s = Inr h"
    by blast
  have "fst (check_reservation_password lib reservation_pwd
            \<lparr>reservation_token_salt = salt,
             reservation_token_hash = hash,
             reservation_token_expiry = expiry\<rparr> w') = Inl (AttributeError ''encode'')"
    by (cases reservation_pwd) (simp_all add: check_reservation_password_def r(2))
  with r show ?thesis by blast
qed

theorem check_raises_on_generated_bytes_witness:
  "fst (generate_reservation_token_data demo_bcrypt demo_manager empty_world) =
     Inr (PStr ''uuid4-'', PBytes ''$2b$12$abcdefghijklmnopqrstuv'',
          PBytes ''$2b$12$abcdefghijklmnopqrstuvuuid4-'', PDateTime 172802000000)
   \<and> bcrypt_hashpw demo_bcrypt ''uuid4-'' ''$2b$12$abcdefghijklmnopqrstuv''
       = Inr ''$2b$12$abcdefghijklmnopqrstuvuuid4-''
   \<and> fst (check_reservation_password demo_bcrypt (PStr ''anything'')
      \<lparr>reservation_token_salt = PBytes ''$2b$12$abcdefghijklmnopqrstuv'',
       reservation_token_hash = PBytes ''$2b$12$abcdefghijklmnopqrstuvuuid4-'',
       reservation_token_expiry = PDateTime 172802000000\<rparr>
      (snd (generate_reservation_token_data demo_bcrypt demo_manager empty_world)))
     = Inl (AttributeError ''encode'')"
  using check_raises_on_generated_bytes[OF demo_generate] demo_generate
  by simp

section \<open>Wallet creation\<close>

lemma appends_callsI: "(\<And>w. \<exists>rest. service_calls (snd (m w)) = service_calls w @ rest) \<Longrightarrow> appends_calls m"
  by (simp add: appends_calls_def)

lemma appends_callsD: "appends_calls m \<Longrightarrow> \<exists>rest. service_calls (snd (m w)) = service_calls w @ rest"
  by (simp add: appends_calls_def)

lemma appends_return [simp]: "appends_calls (return x)"
  by (simp add: appends_calls_def return_def)

lemma appends_raise [simp]: "appends_calls (raise e)"
  by (simp add: appends_calls_def raise_def)

lemma appends_lift [simp]: "appends_calls (lift r)"
  by (simp add: appends_calls_def lift_def)

lemma appends_logger [simp]: "appends_calls (logger lv msg args)"
  by (simp add: appends_calls_def logger_def)

lemma appends_print [simp]: "appends_calls (print line)"
  by (simp add: appends_calls_def print_def)

lemma appends_draw [simp]: "appends_calls (draw src)"
  by (simp add: appends_calls_def draw_def)

lemma appends_bind:
  assumes "appends_calls m" and "\<And>x. appends_calls (f x)"
  shows "appends_calls (bind m f)"
proof (rule appends_callsI)
  fix w
  obtain r w1 where m: "m w = (r, w1)" by (cases "m w")
  from appends_callsD[OF assms(1), of w] m obtain c1 where
    c1: "service_calls w1 = service_calls w @ c1" by auto
  show "\<exists>rest. service_calls (snd (bind m f w)) = service_calls w @ rest"
  proof (cases r)
    case (Inl e)
    with m c1 show ?thesis by (simp add: bind_def)
  next
    case (Inr x)
    from appends_callsD[OF assms(2), of x w1] obtain c2 where
      "service_calls (snd (f x w1)) = service_calls w1 @ c2" by auto
    with m c1 Inr show ?thesis by (simp add: bind_def)
  qed
qed

lemma appends_try_except:
  assumes "appends_calls m" and "\<And>e. appends_calls (h e)"
  shows "appends_calls (try_except m caught h)"
proof (rule appends_callsI)
  fix w
  obtain r w1 where m: "m w = (r, w1)" by (cases "m w")
  from appends_callsD[OF assms(1), of w] m obtain c1 where
    c1: "service_calls w1 = service_calls w @ c1" by auto
  show "\<exists>rest. service_calls (snd (try_except m caught h w)) = service_calls w @ rest"
  proof (cases r)
    case (Inr x)
    with m c1 show ?thesis by (simp add: try_except_def)
  next
    case (Inl e)
    from appends_callsD[OF assms(2), of e w1] obtain c2 where
      "service_calls (snd (h e w1)) = service_calls w1 @ c2" by auto
    with m c1 Inl show ?thesis by (simp add: try_except_def)
  qed
qed

lemma appends_create_auth_token [simp]:
  "appends_calls (multitenant_create_auth_token self wallet_record key)"
  by (simp add: appends_calls_def multitenant_create_auth_token_def)

lemma appends_create_wallet_call [simp]:
  "appends_calls (multitenant_create_wallet self settings mode)"
  by (simp add: appends_calls_def multitenant_create_wallet_def Let_def split: sum.splits)

lemma appends_get_token [simp]: "appends_calls (get_token self wallet_record)"
  unfolding get_token_def
  by (intro appends_try_except appends_bind) simp_all

lemma appends_WalletRecord_retrieve [simp]: "appends_calls (WalletRecord_retrieve_by_id i)"
  by (simp add: appends_calls_def WalletRecord_retrieve_by_id_def)

lemma appends_TenantRecord_retrieve [simp]: "appends_calls (TenantRecord_retrieve_by_id i)"
  by (simp add: appends_calls_def TenantRecord_retrieve_by_id_def)

lemma appends_save_step:
  "appends_calls (\<lambda>w. case save_refused self tenant w of
        Some e \<Rightarrow> (Inl e, w)
      | None \<Rightarrow>
          (let saved = tenant\<lparr>tenant_id := Some i\<rparr>
           in (Inr saved, w\<lparr>tenant_records := (tenant_records w)(i := Inr saved)\<rparr>)))"
  by (simp add: appends_calls_def Let_def split: option.splits)

lemma appends_or_uuid4 [simp]: "appends_calls (or_uuid4 self given)"
  by (simp add: or_uuid4_def split: option.splits)

lemma appends_TenantRecord_save [simp]: "appends_calls (TenantRecord_save self tenant)"
  unfolding TenantRecord_save_def
  by (intro appends_bind appends_save_step) simp

lemma appends_create_tenant [simp]: "appends_calls (create_tenant self i t)"
  unfolding create_tenant_def Let_def
  by (intro appends_try_except appends_bind) simp_all


lemma first_callD: "first_call m c \<Longrightarrow> \<exists>rest. service_calls (snd (m w)) = service_calls w @ c # rest"
  by (simp add: first_call_def)

lemma first_call_service [simp]:
  "first_call (multitenant_create_wallet self settings mode) (CreateWallet settings mode)"
  by (simp add: first_call_def multitenant_create_wallet_def Let_def split: sum.splits)

lemma first_call_bind:
  assumes "first_call m c" and "\<And>x. appends_calls (f x)"
  shows "first_call (bind m f) c"
  unfolding first_call_def
proof
  fix w
  obtain r w1 where m: "m w = (r, w1)" by (cases "m w")
  from first_callD[OF assms(1), of w] m obtain c1 where
    c1: "service_calls w1 = service_calls w @ c # c1" by auto
  show "\<exists>rest. service_calls (snd (bind m f w)) = service_calls w @ c # rest"
  proof (cases r)
    case (Inl e)
    with m c1 show ?thesis by (simp add: bind_def)
  next
    case (Inr x)
    from appends_callsD[OF assms(2), of x w1] obtain c2 where
      "service_calls (snd (f x w1)) = service_calls w1 @ c2" by auto
    with m c1 Inr show ?thesis by (simp add: bind_def)
  qed
qed

lemma first_call_try_except:
  assumes "first_call m c" and "\<And>e. appends_calls (h e)"
  shows "first_call (try_except m caught h) c"
  unfolding first_call_def
proof
  fix w
  obtain r w1 where m: "m w = (r, w1)" by (cases "m w")
  from first_callD[OF assms(1), of w] m obtain c1 where
    c1: "service_calls w1 = service_calls w @ c # c1" by auto
  show "\<exists>rest. service_calls (snd (try_except m caught h w)) = service_calls w @ c # rest"
  proof (cases r)
    case (Inr x)
    with m c1 show ?thesis by (simp add: try_except_def)
  next
    case (Inl e)
    from appends_callsD[OF assms(2), of e w1] obtain c2 where
      "service_calls (snd (h e w1)) = service_calls w1 @ c2" by auto
    with m c1 Inl show ?thesis by (simp add: try_except_def)
  qed
qed

lemma or_uuid4_result:
  "\<exists>x n. or_uuid4 self given w = (Inr x, w\<lparr>draws := n\<rparr>)"
proof (cases "given = None \<or> given = Some []")
  case True
  then have "or_uuid4 self given w = (Inr (uuid4 self (draws w)), w\<lparr>draws := Suc (draws w)\<rparr>)"
    by (auto simp: or_uuid4_def draw_def)
  then show ?thesis by blast
next
  case False
  then obtain s where "given = Some s" "s \<noteq> []" by (cases given) auto
  then have "or_uuid4 self given w = (Inr s, w\<lparr>draws := draws w\<rparr>)"
    by (simp add: or_uuid4_def return_def)
  then show ?thesis by blast
qed

lemma or_uuid4_world:
  assumes "or_uuid4 self given w = (r, w1)"
  shows "\<exists>n. w1 = w\<lparr>draws := n\<rparr>"
  using or_uuid4_result[of self given w] assms by auto

lemma wallet_settings_extra:
  "extra_settings k = Some v \<Longrightarrow> k \<noteq> ''default_label'' \<Longrightarrow>
   wallet_settings self n key extra_settings k = Some v"
  by (simp add: wallet_settings_def Let_def map_add_def)

lemma create_wallet_after_names:
  assumes "or_uuid4 self wallet_name' w = (Inr n, w1)"
    and "or_uuid4 self wallet_key' w1 = (Inr key, w2)"
  shows "create_wallet self wallet_name' wallet_key' extra_settings tenant_id' w =
     bind (try_except
             (bind (multitenant_create_wallet self
                      (wallet_settings self n key extra_settings) MODE_MANAGED)
                   (\<lambda>wallet_record.
                 bind (get_token self wallet_record) (\<lambda>token.
                 return (wallet_record, token))))
             isinstance_BaseError
             (\<lambda>err.
                bind (logger ERROR ''Error creating wallet ({wallet_name}).''
                        [PStr n, PExc err]) (\<lambda>_.
                raise err)))
       (\<lambda>(wallet_record, token).
     bind (create_tenant self (wallet_id wallet_record) tenant_id') (\<lambda>tenant.
     return (tenant, wallet_record, token))) w2"
  using assms by (simp add: create_wallet_def bind_def Let_def)

text \<open>
  C8 (settings merge). Not every key of \<^verbatim>\<open>extra_settings\<close> keeps the caller's value:
  \<^verbatim>\<open>default_label\<close> is assigned the wallet name after the merge. Here the caller asks
  for the label \<^verbatim>\<open>mine\<close> and the service receives the wallet name \<^verbatim>\<open>w\<close>.
\<close>

theorem default_label_counterexample:
  "[''default_label'' \<mapsto> PStr ''mine''] ''default_label'' = Some (PStr ''mine'')
   \<and> call_settings (hd (service_calls (snd (create_wallet demo_manager (Some ''w'') (Some ''k'')
        [''default_label'' \<mapsto> PStr ''mine''] None empty_world)))) ''default_label''
     = Some (PStr ''w'')"
  by (simp add: tm_defs demo_defs prog_defs Let_def)

lemma wallet_settings_label:
  "wallet_settings self n key extra_settings ''default_label'' = Some (PStr n)"
  by (simp add: wallet_settings_def Let_def)

lemma wallet_settings_default:
  "extra_settings k = None \<Longrightarrow> k \<noteq> ''default_label'' \<Longrightarrow>
   wallet_settings self n key extra_settings k =
     [''wallet.type'' \<mapsto> settings_wallet_type self,
      ''wallet.name'' \<mapsto> PStr n,
      ''wallet.key'' \<mapsto> PStr key,
      ''wallet.webhook_urls'' \<mapsto> PList [],
      ''wallet.dispatch_type'' \<mapsto> PStr ''base''] k"
  by (simp add: wallet_settings_def Let_def map_add_def)

text \<open>
  C8 (settings merge), as it holds. With \<open>n\<close> and \<open>key\<close> the wallet name and key in use
  (the given ones, or fresh UUIDs): \<^verbatim>\<open>create_wallet\<close> calls the multitenancy service's
  \<^verbatim>\<open>create_wallet\<close> first, in managed mode, and the settings it passes map every key of
  \<^verbatim>\<open>extra_settings\<close> other than \<^verbatim>\<open>default_label\<close> to the caller's value, map
  \<^verbatim>\<open>default_label\<close> to the wallet name whatever the caller supplied for it, and map
  every other key to its default.
\<close>

theorem extra_settings_reach_service:
  assumes n: "or_uuid4 self wallet_name' w = (Inr n, w1)"
    and k: "or_uuid4 self wallet_key' w1 = (Inr key, w2)"
  shows "\<exists>settings rest.
           service_calls (snd (create_wallet self wallet_name' wallet_key' extra_settings
              tenant_id' w))
             = service_calls w @ CreateWallet settings MODE_MANAGED # rest
         \<and> (\<forall>k v. extra_settings k = Some v \<longrightarrow> k \<noteq> ''default_label'' \<longrightarrow>
                settings k = Some v)
         \<and> settings ''default_label'' = Some (PStr n)
         \<and> (\<forall>k. extra_settings k = None \<longrightarrow> k \<noteq> ''default_label'' \<longrightarrow>
                settings k =
                  [''wallet.type'' \<mapsto> settings_wallet_type self,
                   ''wallet.name'' \<mapsto> PStr n,
                   ''wallet.key'' \<mapsto> PStr key,
                   ''wallet.webhook_urls'' \<mapsto> PList [],
                   ''wallet.dispatch_type'' \<mapsto> PStr ''base''] k)"
proof -
  from or_uuid4_world[OF n] or_uuid4_world[OF k] have calls: "service_calls w2 = service_calls w"
    by auto
  let ?s = "wallet_settings self n key extra_settings"
  have "first_call
     (bind (try_except
             (bind (multitenant_create_wallet self ?s MODE_MANAGED)
                   (\<lambda>wallet_record.
                 bind (get_token self wallet_record) (\<lambda>token.
                 return (wallet_record, token))))
             isinstance_BaseError
             (\<lambda>err.
                bind (logger ERROR ''Error creating wallet ({wallet_name}).''
                        [PStr n, PExc err]) (\<lambda>_.
                raise err)))
       (\<lambda>(wallet_record, token).
     bind (create_tenant self (wallet_id wallet_record) tenant_id') (\<lambda>tenant.
     return (tenant, wallet_record, token)))) (CreateWallet ?s MODE_MANAGED)"
    by (intro first_call_bind first_call_try_except appends_bind first_call_service)
       (simp_all add: split_def appends_bind)
  from first_callD[OF this, of w2] create_wallet_after_names[OF n k] calls
  have sent: "\<exists>rest. service_calls (snd (create_wallet self wallet_name' wallet_key'
                 extra_settings tenant_id' w))
             = service_calls w @ CreateWallet ?s MODE_MANAGED # rest"
    by simp
  have extra: "\<forall>k v. extra_settings k = Some v \<longrightarrow> k \<noteq> ''default_label'' \<longrightarrow> ?s k = Some v"
    by (simp add: wallet_settings_extra)
  have label: "?s ''default_label'' = Some (PStr n)"
    by (rule wallet_settings_label)
  have rest: "\<forall>k. extra_settings k = None \<longrightarrow> k \<noteq> ''default_label'' \<longrightarrow>
                ?s k = [''wallet.type'' \<mapsto> settings_wallet_type self,
                        ''wallet.name'' \<mapsto> PStr n,
                        ''wallet.key'' \<mapsto> PStr key,
                        ''wallet.webhook_urls'' \<mapsto> PList [],
                        ''wallet.dispatch_type'' \<mapsto> PStr ''base''] k"
    by (simp add: wallet_settings_default)
  from sent extra label rest show ?thesis by blast
qed

theorem extra_settings_reach_service_witness:
  "\<exists>settings rest.
     service_calls (snd (create_wallet demo_manager (Some ''w'') (Some ''k'')
        [''wallet.type'' \<mapsto> PStr ''indy'', ''default_label'' \<mapsto> PStr ''mine''] None
        empty_world))
       = service_calls empty_world @ CreateWallet settings MODE_MANAGED # rest
     \<and> settings ''wallet.type'' = Some (PStr ''indy'')
     \<and> settings ''default_label'' = Some (PStr ''w'')
     \<and> settings ''wallet.key'' = Some (PStr ''k'')"
proof -
  have n: "or_uuid4 demo_manager (Some ''w'') empty_world = (Inr ''w'', empty_world)"
    by (simp add: or_uuid4_def return_def)
  have k: "or_uuid4 demo_manager (Some ''k'') empty_world = (Inr ''k'', empty_world)"
    by (simp add: or_uuid4_def return_def)
  from extra_settings_reach_service[OF n k,
         of "[''wallet.type'' \<mapsto> PStr ''indy'', ''default_label'' \<mapsto> PStr ''mine'']" None]
  obtain settings rest where
    sent: "service_calls (snd (create_wallet demo_manager (Some ''w'') (Some ''k'')
        [''wallet.type'' \<mapsto> PStr ''indy'', ''default_label'' \<mapsto> PStr ''mine''] None
        empty_world))
       = service_calls empty_world @ CreateWallet settings MODE_MANAGED # rest"
    and extra: "\<forall>k v. [''wallet.type'' \<mapsto> PStr ''indy'', ''default_label'' \<mapsto> PStr ''mine''] k
                  = Some v \<longrightarrow> k \<noteq> ''default_label'' \<longrightarrow> settings k = Some v"
    and label: "settings ''default_label'' = Some (PStr ''w'')"
    and rest: "\<forall>k. [''wallet.type'' \<mapsto> PStr ''indy'', ''default_label'' \<mapsto> PStr ''mine''] k
                  = None \<longrightarrow> k \<noteq> ''default_label'' \<longrightarrow>
                settings k =
                  [''wallet.type'' \<mapsto> settings_wallet_type demo_manager,
                   ''wallet.name'' \<mapsto> PStr ''w'',
                   ''wallet.key'' \<mapsto> PStr ''k'',
                   ''wallet.webhook_urls'' \<mapsto> PList [],
                   ''wallet.dispatch_type'' \<mapsto> PStr ''base''] k"
    by blast
  from extra[rule_format, of "''wallet.type''" "PStr ''indy''"]
  have t: "settings ''wallet.type'' = Some (PStr ''indy'')" by simp
  from rest[rule_format, of "''wallet.key''"]
  have key: "settings ''wallet.key'' = Some (PStr ''k'')" by simp
  from sent t label key show ?thesis by blast
qed

section \<open>Tokens by wallet id\<close>

text \<open>
  C5 (lookup failure). \<^verbatim>\<open>get_token_by_wallet_id\<close> sets out to log a failed lookup
  and then return \<^verbatim>\<open>token\<close>, but \<^verbatim>\<open>token\<close> is assigned only as the last statement of
  the \<^verbatim>\<open>try\<close> body and is never initialised (as \<^verbatim>\<open>create_innkeeper\<close> initialises its
  locals before the same kind of \<^verbatim>\<open>try\<close>). So when the wallet lookup raises a storage or
  model error, the function logs that the wallet was not found, asks the service for
  nothing, and \<^verbatim>\<open>return token\<close> raises \<^verbatim>\<open>UnboundLocalError\<close>: no value is returned,
  neither what \<^verbatim>\<open>token\<close> held nor a not-found result.
\<close>

theorem lookup_failure_unbound_token:
  assumes "wallet_records w wallet_id' = Inl e"
    and "isinstance_StorageError e \<or> isinstance_BaseModelError e"
  shows "get_token_by_wallet_id self wallet_id' w =
           (Inl (UnboundLocalError ''token''),
            w\<lparr>logged := logged w @ [Log INFO ''Wallet not found with ID {wallet_id}'' [PStr wallet_id']]\<rparr>)"
  using assms
  by (auto simp: get_token_by_wallet_id_def WalletRecord_retrieve_by_id_def prog_defs)


theorem lookup_failure_unbound_token_witness:
  "get_token_by_wallet_id demo_manager ''lost'' empty_world =
     (Inl (UnboundLocalError ''token''),
      empty_world\<lparr>logged := logged empty_world @
        [Log INFO ''Wallet not found with ID {wallet_id}'' [PStr ''lost'']]\<rparr>)"
proof -
  have "wallet_records empty_world ''lost'' = Inl (StorageNotFoundError ''lost'')"
    by (simp add: empty_world_def)
  moreover have "isinstance_StorageError (StorageNotFoundError ''lost'')
                 \<or> isinstance_BaseModelError (StorageNotFoundError ''lost'')"
    by simp
  ultimately show ?thesis
    by (rule lookup_failure_unbound_token)
qed

section \<open>A failing service in \<^verbatim>\<open>create_wallet\<close>\<close>

lemma try_body_failure:
  assumes "fst (bind (multitenant_create_wallet self settings mode)
             (\<lambda>wallet_record.
                multitenant_create_auth_token self wallet_record (wallet_key wallet_record)) w)
           = Inl e"
  shows "\<exists>w'. bind (multitenant_create_wallet self settings mode)
            (\<lambda>wallet_record.
               bind (get_token self wallet_record) (\<lambda>token. return (wallet_record, token))) w
          = (Inl e, w') \<and> tenant_records w' = tenant_records w"
proof (cases "mt_create_wallet self settings mode w")
  case (Inl e1)
  with assms show ?thesis
    by (simp add: bind_def multitenant_create_wallet_def Let_def)
next
  case (Inr wr)
  let ?w1 = "w\<lparr>service_calls := service_calls w @ [CreateWallet settings mode],
                wallet_records := (wallet_records w)(wallet_id wr := Inr wr)\<rparr>"
  from Inr assms have tok: "mt_create_auth_token self wr (wallet_key wr) ?w1 = Inl e"
    by (simp add: bind_def multitenant_create_wallet_def Let_def
        multitenant_create_auth_token_def)
  show ?thesis
    using Inr tok
    by (simp add: bind_def multitenant_create_wallet_def Let_def get_token_def
        multitenant_create_auth_token_def try_except_def logger_def raise_def)
qed

text \<open>
  C4 (no tenant without a wallet). An exception of the service is logged by
  \<^verbatim>\<open>create_wallet\<close> only when it is a \<^verbatim>\<open>BaseError\<close>, the class its \<^verbatim>\<open>except\<close>
  clause names. Here the service's wallet creation raises another exception: it leaves
  \<^verbatim>\<open>create_wallet\<close> as it is, and nothing was logged.
\<close>

theorem unlogged_failure_counterexample:
  "fst (create_wallet crashing_manager (Some ''w'') (Some ''k'') Map.empty None empty_world)
     = Inl (OtherException ''crash'')
   \<and> logged (snd (create_wallet crashing_manager (Some ''w'') (Some ''k'') Map.empty None
        empty_world)) = []"
  by (simp add: tm_defs demo_defs prog_defs Let_def)

text \<open>
  C4 (no tenant without a wallet), as it holds. With \<open>n\<close> and \<open>key\<close> the wallet name and
  key in use (the given ones, or fresh UUIDs): if the service's wallet creation, or after
  it the token issuance, raises \<open>e\<close>, then \<^verbatim>\<open>create_wallet\<close> raises \<open>e\<close> and the tenant
  records are what they were, so a tenant record is saved only after both have succeeded;
  and when \<open>e\<close> is a \<^verbatim>\<open>BaseError\<close>, the last thing \<^verbatim>\<open>create_wallet\<close> did before
  re-raising was to log the error.
\<close>

theorem service_failure_no_tenant:
  assumes n: "or_uuid4 self wallet_name' w = (Inr n, w1)"
    and k: "or_uuid4 self wallet_key' w1 = (Inr key, w2)"
    and fail: "fst (bind (multitenant_create_wallet self
                            (wallet_settings self n key extra_settings) MODE_MANAGED)
                 (\<lambda>wallet_record. multitenant_create_auth_token self wallet_record
                    (wallet_key wallet_record)) w2) = Inl e"
  shows "fst (create_wallet self wallet_name' wallet_key' extra_settings tenant_id' w) = Inl e
       \<and> tenant_records (snd (create_wallet self wallet_name' wallet_key' extra_settings
            tenant_id' w)) = tenant_records w
       \<and> (isinstance_BaseError e \<longrightarrow>
            last (logged (snd (create_wallet self wallet_name' wallet_key' extra_settings
              tenant_id' w)))
            = Log ERROR ''Error creating wallet ({wallet_name}).'' [PStr n, PExc e])"
proof -
  from or_uuid4_world[OF n] or_uuid4_world[OF k] have t: "tenant_records w2 = tenant_records w"
    by auto
  from try_body_failure[OF fail] obtain w3 where
    body: "bind (multitenant_create_wallet self (wallet_settings self n key extra_settings)
                   MODE_MANAGED)
            (\<lambda>wallet_record.
               bind (get_token self wallet_record) (\<lambda>token. return (wallet_record, token))) w2
          = (Inl e, w3)"
    and t3: "tenant_records w3 = tenant_records w2" by blast
  show ?thesis
    unfolding create_wallet_after_names[OF n k]
    using body t t3
    by (simp add: bind_def try_except_def logger_def raise_def)
qed

theorem service_failure_no_tenant_witness:
  "fst (create_wallet token_refusing_manager (Some ''w'') (Some ''k'') Map.empty None
          empty_world) = Inl (BaseError ''no token'')
   \<and> tenant_records (snd (create_wallet token_refusing_manager (Some ''w'') (Some ''k'')
          Map.empty None empty_world)) = tenant_records empty_world
   \<and> last (logged (snd (create_wallet token_refusing_manager (Some ''w'') (Some ''k'')
          Map.empty None empty_world)))
     = Log ERROR ''Error creating wallet ({wallet_name}).''
         [PStr ''w'', PExc (BaseError ''no token'')]"
proof -
  have n: "or_uuid4 token_refusing_manager (Some ''w'') empty_world = (Inr ''w'', empty_world)"
    by (simp add: or_uuid4_def return_def)
  have k: "or_uuid4 token_refusing_manager (Some ''k'') empty_world = (Inr ''k'', empty_world)"
    by (simp add: or_uuid4_def return_def)
  have fail: "fst (bind (multitenant_create_wallet token_refusing_manager
                     (wallet_settings token_refusing_manager ''w'' ''k'' Map.empty) MODE_MANAGED)
                 (\<lambda>wallet_record. multitenant_create_auth_token token_refusing_manager
                    wallet_record (wallet_key wallet_record)) empty_world)
              = Inl (BaseError ''no token'')"
    by (simp add: tm_defs demo_defs prog_defs Let_def)
  from service_failure_no_tenant[OF n k fail] show ?thesis by simp
qed

section \<open>The innkeeper\<close>

lemma print_innkeeper_result:
  "print_innkeeper self t wr tok w =
      (Inr (), w\<lparr>printed := printed w @ id_lines t wr @
         [''wallet.wallet_key = ''
            @ (if print_key (config self) then wallet_key wr else ''********'') @ [CHR 0x0A]]
         @ (if print_token (config self) then [''Bearer '' @ tok @ [CHR 0x0A]] else [])\<rparr>)"
  by (simp add: print_innkeeper_def id_lines_def bind_def print_def return_def Let_def)

lemma print_innkeeper_props:
  assumes "print_innkeeper self t wr tok w = (r, w')"
  shows "r = Inr () \<and> tenant_records w' = tenant_records w
       \<and> wallet_records w' = wallet_records w \<and> service_calls w' = service_calls w
       \<and> take 5 (drop (length (printed w)) (printed w')) = id_lines t wr"
  using assms unfolding print_innkeeper_result
  by (auto simp: id_lines_def)

lemma find_innkeeper_found:
  assumes "tenant_records w (innkeeper_tenant_id (config self)) = Inr t"
    and "wallet_records w (tenant_wallet_id t) = Inr wr"
  shows "find_innkeeper self w = (Inr (Some t, Some wr), w)"
  using assms
  by (simp add: find_innkeeper_def Let_def TenantRecord_retrieve_by_id_def
      WalletRecord_retrieve_by_id_def bind_def try_except_def return_def)

lemma find_innkeeper_result:
  assumes "find_innkeeper self w = (Inr found, w')"
  shows "(\<exists>t wr. found = (Some t, Some wr) \<and> w' = w
            \<and> tenant_records w (innkeeper_tenant_id (config self)) = Inr t
            \<and> wallet_records w (tenant_wallet_id t) = Inr wr)
       \<or> ((fst found = None \<or> snd found = None)
            \<and> (\<exists>l. w' = w\<lparr>logged := l\<rparr>))"
proof (cases "tenant_records w (innkeeper_tenant_id (config self))")
  case (Inl e)
  with assms show ?thesis
    by (auto simp: find_innkeeper_def Let_def TenantRecord_retrieve_by_id_def
        bind_def try_except_def return_def logger_def split: if_splits)
next
  case t: (Inr t)
  show ?thesis
  proof (cases "wallet_records w (tenant_wallet_id t)")
    case (Inl e)
    with t assms show ?thesis
      by (auto simp: find_innkeeper_def Let_def TenantRecord_retrieve_by_id_def
          WalletRecord_retrieve_by_id_def bind_def try_except_def return_def logger_def
          split: if_splits)
  next
    case (Inr wr)
    with t assms find_innkeeper_found[OF t Inr] show ?thesis by auto
  qed
qed


lemma create_wallet_success:
  assumes "create_wallet self wallet_name' wallet_key' extra_settings (Some tid) w =
             (Inr (tenant, wr, tok), w')"
    and tid: "tid \<noteq> []"
  shows "tenant_records w' tid = Inr tenant \<and> wallet_records w' (wallet_id wr) = Inr wr
       \<and> tenant_wallet_id tenant = wallet_id wr \<and> printed w' = printed w"
proof -
  from or_uuid4_result[of self wallet_name' w] obtain n d1 where
    1: "or_uuid4 self wallet_name' w = (Inr n, w\<lparr>draws := d1\<rparr>)" by blast
  from or_uuid4_result[of self wallet_key' "w\<lparr>draws := d1\<rparr>"] obtain key d2 where
    2: "or_uuid4 self wallet_key' (w\<lparr>draws := d1\<rparr>) = (Inr key, w\<lparr>draws := d2\<rparr>)" by auto
  let ?S = "wallet_settings self n key extra_settings"
  let ?w2 = "w\<lparr>draws := d2\<rparr>"
  note run = assms(1)[unfolded create_wallet_after_names[OF 1 2]]
  show ?thesis
  proof (cases "mt_create_wallet self ?S MODE_MANAGED ?w2")
    case (Inl e)
    with run show ?thesis
      by (simp add: bind_def try_except_def multitenant_create_wallet_def Let_def
          logger_def raise_def split: if_splits)
  next
    case wr0: (Inr wr0)
    let ?w3 = "?w2\<lparr>service_calls := service_calls ?w2 @ [CreateWallet ?S MODE_MANAGED],
                  wallet_records := (wallet_records ?w2)(wallet_id wr0 := Inr wr0)\<rparr>"
    show ?thesis
    proof (cases "mt_create_auth_token self wr0 (wallet_key wr0) ?w3")
      case (Inl e)
      with run wr0 show ?thesis
        by (simp add: bind_def try_except_def multitenant_create_wallet_def Let_def
            get_token_def multitenant_create_auth_token_def
            logger_def raise_def split: if_splits)
    next
      case tok0: (Inr tok0)
      let ?w4 = "?w3\<lparr>service_calls := service_calls ?w3 @ [CreateAuthToken wr0 (wallet_key wr0)]\<rparr>"
      let ?T = "\<lparr>tenant_id = Some tid, tenant_name = wallet_name wr0,
                  tenant_wallet_id = wallet_id wr0\<rparr>"
      show ?thesis
      proof (cases "save_refused self ?T ?w4")
        case (Some e)
        with run wr0 tok0 tid show ?thesis
          by (simp add: bind_def try_except_def multitenant_create_wallet_def Let_def
              get_token_def multitenant_create_auth_token_def create_tenant_def
              WalletRecord_retrieve_by_id_def TenantRecord_save_def or_uuid4_def return_def
              logger_def raise_def)
      next
        case None
        with run wr0 tok0 tid show ?thesis
          by (auto simp: bind_def try_except_def multitenant_create_wallet_def Let_def
              get_token_def multitenant_create_auth_token_def create_tenant_def
              WalletRecord_retrieve_by_id_def TenantRecord_save_def or_uuid4_def return_def
              logger_def raise_def)
      qed
    qed
  qed
qed


lemma innkeeper_found_path:
  assumes t: "tenant_records w (innkeeper_tenant_id (config self)) = Inr t"
    and wr: "wallet_records w (tenant_wallet_id t) = Inr wr"
  shows "wallet_records (snd (create_innkeeper self w)) = wallet_records w
       \<and> tenant_records (snd (create_innkeeper self w)) = tenant_records w
       \<and> service_calls (snd (create_innkeeper self w))
           = service_calls w @ [CreateAuthToken wr (wallet_key wr)]
       \<and> (fst (create_innkeeper self w) = Inr () \<longrightarrow>
            take 5 (drop (length (printed w)) (printed (snd (create_innkeeper self w))))
              = id_lines t wr)"
proof -
  let ?w1 = "w\<lparr>logged := logged w @
               [Log INFO ''{wallet_name} wallet exists.''
                  [PStr (innkeeper_wallet_name (config self))]]\<rparr>"
  show ?thesis
  proof (cases "mt_create_auth_token self wr (wallet_key wr) ?w1")
    case (Inl e)
    then show ?thesis
      by (simp add: create_innkeeper_def Let_def bind_def find_innkeeper_found[OF t wr]
          logger_def get_token_def try_except_def multitenant_create_auth_token_def raise_def)
  next
    case (Inr tok)
    then show ?thesis
      by (simp add: create_innkeeper_def Let_def bind_def find_innkeeper_found[OF t wr]
          logger_def get_token_def try_except_def multitenant_create_auth_token_def
          return_def print_innkeeper_result id_lines_def)
  qed
qed

lemma innkeeper_create_path:
  assumes run: "create_innkeeper self w0 = (Inr (), w1)"
    and found: "find_innkeeper self w0 = (Inr (a, b), w0\<lparr>logged := l\<rparr>)"
    and missing: "a = None \<or> b = None"
    and configured: "innkeeper_tenant_id (config self) \<noteq> []"
  shows "\<exists>t wr. tenant_records w1 (innkeeper_tenant_id (config self)) = Inr t
           \<and> wallet_records w1 (tenant_wallet_id t) = Inr wr
           \<and> take 5 (drop (length (printed w0)) (printed w1)) = id_lines t wr"
proof -
  let ?wl = "w0\<lparr>logged := l @ [Log INFO ''creating {wallet_name} wallet...''
                  [PStr (innkeeper_wallet_name (config self))]]\<rparr>"
  let ?cw = "create_wallet self (Some (innkeeper_wallet_name (config self)))
               (Some (innkeeper_wallet_key (config self)))
               [''wallet.innkeeper'' \<mapsto> PBool True]
               (Some (innkeeper_tenant_id (config self)))"
  let ?create = "bind (logger INFO ''creating {wallet_name} wallet...''
                         [PStr (innkeeper_wallet_name (config self))]) (\<lambda>_.
                 bind ?cw (\<lambda>created.
                 bind (logger INFO ''...created {wallet_name} tenant and wallet.''
                         [PStr (innkeeper_wallet_name (config self))]) (\<lambda>_.
                 return created)))"
  have whole: "create_innkeeper self w0 =
      bind ?create (\<lambda>(tenant_record, wallet_record, token).
        print_innkeeper self tenant_record wallet_record token) (w0\<lparr>logged := l\<rparr>)"
    using missing
    by (auto simp: create_innkeeper_def Let_def bind_Inr[of "find_innkeeper self" w0, OF found]
        split: option.splits)
  obtain rc wc where cw: "?cw ?wl = (rc, wc)" by (cases "?cw ?wl")
  show ?thesis
  proof (cases rc)
    case (Inl e)
    with cw have "?create (w0\<lparr>logged := l\<rparr>) = (Inl e, wc)"
      by (simp add: bind_def logger_def)
    then have "create_innkeeper self w0 = (Inl e, wc)"
      unfolding whole by (rule bind_Inl)
    with run show ?thesis by simp
  next
    case (Inr created)
    obtain tenant wr tok where c: "created = (tenant, wr, tok)" by (cases created)
    from create_wallet_success[OF cw[unfolded Inr c] configured]
    have props: "tenant_records wc (innkeeper_tenant_id (config self)) = Inr tenant"
      "wallet_records wc (wallet_id wr) = Inr wr"
      "tenant_wallet_id tenant = wallet_id wr" "printed wc = printed w0"
      by simp_all
    let ?wd = "wc\<lparr>logged := logged wc @ [Log INFO ''...created {wallet_name} tenant and wallet.''
                  [PStr (innkeeper_wallet_name (config self))]]\<rparr>"
    from cw Inr c have "?create (w0\<lparr>logged := l\<rparr>) = (Inr (tenant, wr, tok), ?wd)"
      by (simp add: bind_def logger_def return_def)
    then have "create_innkeeper self w0 = print_innkeeper self tenant wr tok ?wd"
      unfolding whole by (simp add: bind_def)
    with run have "print_innkeeper self tenant wr tok ?wd = (Inr (), w1)" by simp
    from print_innkeeper_props[OF this] props show ?thesis by auto
  qed
qed

lemma innkeeper_established:
  assumes run: "create_innkeeper self w0 = (Inr (), w1)"
    and configured: "innkeeper_tenant_id (config self) \<noteq> []"
  shows "\<exists>t wr. tenant_records w1 (innkeeper_tenant_id (config self)) = Inr t
           \<and> wallet_records w1 (tenant_wallet_id t) = Inr wr
           \<and> take 5 (drop (length (printed w0)) (printed w1)) = id_lines t wr"
proof -
  obtain r wf where f: "find_innkeeper self w0 = (r, wf)" by (cases "find_innkeeper self w0")
  show ?thesis
  proof (cases r)
    case (Inl e)
    with run f show ?thesis
      by (simp add: create_innkeeper_def Let_def bind_def)
  next
    case (Inr found)
    from find_innkeeper_result[OF f[unfolded Inr]]
    show ?thesis
    proof
      assume "\<exists>t wr. found = (Some t, Some wr) \<and> wf = w0
            \<and> tenant_records w0 (innkeeper_tenant_id (config self)) = Inr t
            \<and> wallet_records w0 (tenant_wallet_id t) = Inr wr"
      then obtain t wr where
        t: "tenant_records w0 (innkeeper_tenant_id (config self)) = Inr t"
        and wr: "wallet_records w0 (tenant_wallet_id t) = Inr wr" by blast
      from innkeeper_found_path[OF t wr] run t wr show ?thesis by auto
    next
      assume m: "(fst found = None \<or> snd found = None) \<and> (\<exists>l. wf = w0\<lparr>logged := l\<rparr>)"
      then obtain l where l: "wf = w0\<lparr>logged := l\<rparr>" by blast
      obtain a b where ab: "found = (a, b)" by (cases found)
      from m ab have "a = None \<or> b = None" by simp
      from innkeeper_create_path[OF run f[unfolded Inr ab l] this configured] show ?thesis .
    qed
  qed
qed

text \<open>
  C7 (idempotent bootstrap). With an innkeeper tenant id configured (not the empty
  string, which \<^verbatim>\<open>save\<close> would replace by a fresh UUID): after a call of
  \<^verbatim>\<open>create_innkeeper\<close> that succeeded, the tenant record with the configured id and
  its wallet exist, and the call reported them.
  A second call then creates nothing: the wallet records and the tenant records stay as
  they are, the only call the service receives is one for a token for that wallet, and
  when the second call succeeds too, the five lines it prints about the tenant and the
  wallet (names, \<^verbatim>\<open>tenant_id\<close>, \<^verbatim>\<open>wallet_id\<close>) are the five lines the first call
  printed.
\<close>

theorem create_innkeeper_idempotent:
  assumes configured: "innkeeper_tenant_id (config self) \<noteq> []"
    and first: "create_innkeeper self w0 = (Inr (), w1)"
  shows "\<exists>t wr.
           tenant_records w1 (innkeeper_tenant_id (config self)) = Inr t
         \<and> wallet_records w1 (tenant_wallet_id t) = Inr wr
         \<and> wallet_records (snd (create_innkeeper self w1)) = wallet_records w1
         \<and> tenant_records (snd (create_innkeeper self w1)) = tenant_records w1
         \<and> service_calls (snd (create_innkeeper self w1))
             = service_calls w1 @ [CreateAuthToken wr (wallet_key wr)]
         \<and> take 5 (drop (length (printed w0)) (printed w1)) = id_lines t wr
         \<and> (fst (create_innkeeper self w1) = Inr () \<longrightarrow>
              take 5 (drop (length (printed w1)) (printed (snd (create_innkeeper self w1))))
                = take 5 (drop (length (printed w0)) (printed w1)))"
proof -
  from innkeeper_established[OF first configured] obtain t wr where
    t: "tenant_records w1 (innkeeper_tenant_id (config self)) = Inr t"
    and wr: "wallet_records w1 (tenant_wallet_id t) = Inr wr"
    and p: "take 5 (drop (length (printed w0)) (printed w1)) = id_lines t wr" by blast
  from innkeeper_found_path[OF t wr] t wr p show ?thesis by auto
qed


theorem create_innkeeper_idempotent_witness:
  "fst (create_innkeeper demo_manager empty_world) = Inr ()
   \<and> fst (create_innkeeper demo_manager (snd (create_innkeeper demo_manager empty_world)))
       = Inr ()
   \<and> tenant_records (snd (create_innkeeper demo_manager
          (snd (create_innkeeper demo_manager empty_world))))
       = tenant_records (snd (create_innkeeper demo_manager empty_world))
   \<and> wallet_records (snd (create_innkeeper demo_manager
          (snd (create_innkeeper demo_manager empty_world))))
       = wallet_records (snd (create_innkeeper demo_manager empty_world))
   \<and> take 5 (drop (length (printed (snd (create_innkeeper demo_manager empty_world))))
        (printed (snd (create_innkeeper demo_manager
          (snd (create_innkeeper demo_manager empty_world))))))
       = [CHR 0x0A # ''tenant.tenant_name = traction_innkeeper'',
          ''tenant.tenant_id = innkeeper'',
          ''tenant.wallet_id = wallet-of-traction_innkeeper'',
          ''wallet.wallet_name = traction_innkeeper'',
          ''wallet.wallet_id = wallet-of-traction_innkeeper'']"
proof -
  have f1: "fst (create_innkeeper demo_manager empty_world) = Inr ()"
    by (simp add: innkeeper_defs tm_defs demo_defs prog_defs Let_def)
  then have first: "create_innkeeper demo_manager empty_world
                 = (Inr (), snd (create_innkeeper demo_manager empty_world))"
    by (simp add: prod_eq_iff)
  have second: "fst (create_innkeeper demo_manager
                   (snd (create_innkeeper demo_manager empty_world))) = Inr ()"
    by (simp add: innkeeper_defs tm_defs demo_defs prog_defs Let_def)
  have lines: "take 5 (drop (length (printed empty_world))
                  (printed (snd (create_innkeeper demo_manager empty_world))))
       = [CHR 0x0A # ''tenant.tenant_name = traction_innkeeper'',
          ''tenant.tenant_id = innkeeper'',
          ''tenant.wallet_id = wallet-of-traction_innkeeper'',
          ''wallet.wallet_name = traction_innkeeper'',
          ''wallet.wallet_id = wallet-of-traction_innkeeper'']"
    by (simp add: innkeeper_defs tm_defs demo_defs prog_defs Let_def)
  have configured: "innkeeper_tenant_id (config demo_manager) \<noteq> []"
    by (simp add: demo_manager_def demo_config_def)
  from create_innkeeper_idempotent[OF configured first] f1 second lines show ?thesis by auto
qed


section \<open>Requesting a degree presentation\<close>

text \<open>
  C9 (the proof request). Whenever the applicant, the line of business and Faber are
  found, \<^verbatim>\<open>request_degree\<close> passes to the service, whatever the service answers, a
  proof request with exactly two requested attributes, named \<^verbatim>\<open>degree\<close> and \<^verbatim>\<open>date\<close>,
  and exactly one requested predicate, with name \<^verbatim>\<open>age\<close>, type \<^verbatim>\<open>>\<close> and value 18;
  each of the three is restricted to Faber's \<^verbatim>\<open>cred_def_id\<close>.
\<close>

theorem request_degree_proof_request:
  assumes "applicant_get_by_id_in_sandbox api sandbox_id applicant_id = Inr applicant"
    and "lob_get_by_id_with_sandbox api sandbox_id lob_id = Inr acme"
    and "lob_get_by_name_with_sandbox api sandbox_id ''Faber'' = Inr faber"
  shows "\<exists>proof_req a1 a2 p.
           (\<forall>respond.
              request_degree (api\<lparr>tenant_request_credential_presentation := respond\<rparr>)
                sandbox_id lob_id applicant_id
              = respond (lob_wallet_id acme) (lob_wallet_key acme)
                  (format_opt (connection_id applicant)) (applicant_alias applicant) proof_req)
         \<and> dict_get proof_req ''requested_attributes'' = Some (PList [a1, a2])
         \<and> dict_get a1 ''name'' = Some (PStr ''degree'')
         \<and> dict_get a2 ''name'' = Some (PStr ''date'')
         \<and> dict_get proof_req ''requested_predicates'' = Some (PList [p])
         \<and> dict_get p ''name'' = Some (PStr ''age'')
         \<and> dict_get p ''p_type'' = Some (PStr ''>'')
         \<and> dict_get p ''p_value'' = Some (PInt 18)
         \<and> (\<forall>x \<in> {a1, a2, p}.
               dict_get x ''restrictions'' = Some (PList [PDict [(''cred_def_id'', cred_def_id faber)]]))"
proof -
  let ?restrictions = "PList [PDict [(''cred_def_id'', cred_def_id faber)]]"
  let ?a1 = "PDict [(''name'', PStr ''degree''), (''restrictions'', ?restrictions)]"
  let ?a2 = "PDict [(''name'', PStr ''date''), (''restrictions'', ?restrictions)]"
  let ?p = "PDict [(''name'', PStr ''age''), (''p_type'', PStr ''>''), (''p_value'', PInt 18),
                   (''restrictions'', ?restrictions)]"
  let ?req = "PDict [(''requested_attributes'', PList [?a1, ?a2]),
                     (''requested_predicates'', PList [?p])]"
  have call: "\<forall>respond.
      request_degree (api\<lparr>tenant_request_credential_presentation := respond\<rparr>)
        sandbox_id lob_id applicant_id
      = respond (lob_wallet_id acme) (lob_wallet_key acme)
          (format_opt (connection_id applicant)) (applicant_alias applicant) ?req"
    using assms by (simp add: request_degree_def Let_def)
  have attrs: "dict_get ?req ''requested_attributes'' = Some (PList [?a1, ?a2])"
    and preds: "dict_get ?req ''requested_predicates'' = Some (PList [?p])"
    by simp_all
  have names: "dict_get ?a1 ''name'' = Some (PStr ''degree'')"
    "dict_get ?a2 ''name'' = Some (PStr ''date'')"
    "dict_get ?p ''name'' = Some (PStr ''age'')"
    "dict_get ?p ''p_type'' = Some (PStr ''>'')"
    "dict_get ?p ''p_value'' = Some (PInt 18)"
    by simp_all
  have restr: "\<forall>x \<in> {?a1, ?a2, ?p}. dict_get x ''restrictions'' = Some ?restrictions"
    by simp
  from call attrs preds names restr show ?thesis by blast
qed

theorem request_degree_proof_request_witness:
  "\<exists>proof_req a1 a2 p.
           (\<forall>respond.
              request_degree (demo_api\<lparr>tenant_request_credential_presentation := respond\<rparr>)
                ''sandbox'' ''acme'' ''alice''
              = respond (PStr ''acme-wallet'') (PStr ''acme-key'')
                  ''c0ffee00-0000-4000-8000-000000000001'' (PStr ''Alice'') proof_req)
         \<and> dict_get proof_req ''requested_attributes'' = Some (PList [a1, a2])
         \<and> dict_get a1 ''name'' = Some (PStr ''degree'')
         \<and> dict_get a2 ''name'' = Some (PStr ''date'')
         \<and> dict_get proof_req ''requested_predicates'' = Some (PList [p])
         \<and> dict_get p ''name'' = Some (PStr ''age'')
         \<and> dict_get p ''p_type'' = Some (PStr ''>'')
         \<and> dict_get p ''p_value'' = Some (PInt 18)
         \<and> (\<forall>x \<in> {a1, a2, p}.
               dict_get x ''restrictions''
                 = Some (PList [PDict [(''cred_def_id'', PStr ''faber:3:CL:12:degree'')]]))"
proof -
  have a: "applicant_get_by_id_in_sandbox demo_api ''sandbox'' ''alice''
           = Inr \<lparr>connection_id = Some ''c0ffee00-0000-4000-8000-000000000001'',
                  applicant_alias = PStr ''Alice''\<rparr>"
    by (simp add: demo_api_def)
  have l: "lob_get_by_id_with_sandbox demo_api ''sandbox'' ''acme''
           = Inr \<lparr>lob_wallet_id = PStr ''acme-wallet'', lob_wallet_key = PStr ''acme-key'',
                  cred_def_id = PNone\<rparr>"
    by (simp add: demo_api_def)
  have f: "lob_get_by_name_with_sandbox demo_api ''sandbox'' ''Faber''
           = Inr \<lparr>lob_wallet_id = PStr ''faber-wallet'', lob_wallet_key = PStr ''faber-key'',
                  cred_def_id = PStr ''faber:3:CL:12:degree''\<rparr>"
    by (simp add: demo_api_def)
  from request_degree_proof_request[OF a l f] show ?thesis by (simp add: format_opt_def)
qed


end
